theory Spec2Isabelle
  imports Main
begin

section \<open>The DevKB editor extension (src/extension.ts)\<close>

text \<open>
  The extension registers five commands. Each one prompts the user, calls the HTTP API
  through \<open>apiRequest\<close> and reports through notifications or a new document. The model
  below makes each command a function from what the environment answers (the
  configuration, the user's input, the outcome of the HTTP call) to the sequence of
  effects the command performs and the way it ends.

  Strings are lists of \<open>char\<close>, one \<open>char\<close> per UTF-16 code unit, so the model covers
  the code units U+0000 to U+00FF; on that range the string functions below are the
  ECMAScript ones.
\<close>

subsection \<open>Values\<close>

text \<open>
  What \<open>response.json()\<close> and \<open>getConfiguration().get\<close> hand to the program is
  untyped (\<open>any\<close>). An object holds its own properties in enumeration order, with
  distinct keys; numbers are the integers.
\<close>

datatype jsval =
    JUndefined
  | JNull
  | JBool bool
  | JNum int
  | JStr string
  | JArr "jsval list"
  | JObj "(string \<times> jsval) list"

datatype exn = TypeError | FsError

datatype 'a res = Ok 'a | Throw exn

text \<open>ToBoolean: what \<open>!x\<close>, \<open>x && y\<close>, \<open>x || y\<close> and \<open>x ? y : z\<close> test.\<close>

fun truthy :: "jsval \<Rightarrow> bool" where
  "truthy JUndefined = False"
| "truthy JNull = False"
| "truthy (JBool b) = b"
| "truthy (JNum n) = (n \<noteq> 0)"
| "truthy (JStr s) = (s \<noteq> [])"
| "truthy (JArr xs) = True"
| "truthy (JObj kvs) = True"

text \<open>
  A value of type \<open>string | undefined\<close>, as \<open>showInputBox\<close> and the optional chain
  \<open>editor?.document.getText(selection)\<close> return it, is a \<open>string option\<close>.
\<close>

fun truthy_str :: "string option \<Rightarrow> bool" where
  "truthy_str None = False"
| "truthy_str (Some s) = (s \<noteq> [])"

text \<open>
  Reading a named property \<open>v.k\<close>. It throws on \<open>undefined\<close> and \<open>null\<close>. The
  program reads no numeric key, so a string and an array answer \<open>length\<close> only.
\<close>

fun member :: "jsval \<Rightarrow> string \<Rightarrow> jsval res" where
  "member JUndefined k = Throw TypeError"
| "member JNull k = Throw TypeError"
| "member (JBool b) k = Ok JUndefined"
| "member (JNum n) k = Ok JUndefined"
| "member (JStr s) k = Ok (if k = ''length'' then JNum (int (length s)) else JUndefined)"
| "member (JArr xs) k = Ok (if k = ''length'' then JNum (int (length xs)) else JUndefined)"
| "member (JObj kvs) k = Ok (case map_of kvs k of None \<Rightarrow> JUndefined | Some v \<Rightarrow> v)"

text \<open>\<open>v && v.k\<close>: the property is read only when \<open>v\<close> is truthy.\<close>

definition and_member :: "jsval \<Rightarrow> string \<Rightarrow> jsval res" where
  "and_member v k = (if truthy v then member v k else Ok v)"

subsection \<open>Strings\<close>

fun intercalate :: "string \<Rightarrow> string list \<Rightarrow> string" where
  "intercalate sep [] = []"
| "intercalate sep [x] = x"
| "intercalate sep (x # y # ys) = x @ sep @ intercalate sep (y # ys)"

fun digit_char :: "nat \<Rightarrow> char" where
  "digit_char n = (''0123456789ABCDEF'') ! (n mod 16)"

fun show_nat :: "nat \<Rightarrow> string" where
  "show_nat n = (if n < 10 then [digit_char n] else show_nat (n div 10) @ [digit_char (n mod 10)])"

declare show_nat.simps [simp del]

definition show_int :: "int \<Rightarrow> string" where
  "show_int i = (if i < 0 then CHR ''-'' # show_nat (nat (- i)) else show_nat (nat i))"

text \<open>
  ToString, as a template literal \<open>`${v}`\<close> applies it. An array is joined with commas,
  its \<open>undefined\<close> and \<open>null\<close> elements printing as nothing.
\<close>

fun to_string :: "jsval \<Rightarrow> string" where
  "to_string JUndefined = ''undefined''"
| "to_string JNull = ''null''"
| "to_string (JBool b) = (if b then ''true'' else ''false'')"
| "to_string (JNum n) = show_int n"
| "to_string (JStr s) = s"
| "to_string (JArr xs) =
     intercalate '',''
       (map (\<lambda>x. if x = JUndefined \<or> x = JNull then [] else to_string x) xs)"
| "to_string (JObj kvs) = ''[object Object]''"

text \<open>\<open>xs.join(sep)\<close> on an array.\<close>

definition join :: "jsval list \<Rightarrow> string \<Rightarrow> string" where
  "join xs sep =
     intercalate sep (map (\<lambda>x. if x = JUndefined \<or> x = JNull then [] else to_string x) xs)"

text \<open>
  \<open>s.trim()\<close> strips white space and line terminators from both ends. Below U+0100
  these are TAB, LF, VT, FF, CR, SP and NBSP.
\<close>

definition white_space :: "char \<Rightarrow> bool" where
  "white_space c =
     (c \<in> set [CHR 0x09, CHR 0x0A, CHR 0x0B, CHR 0x0C, CHR 0x0D, CHR 0x20, CHR 0xA0])"

definition trim :: "string \<Rightarrow> string" where
  "trim s = rev (dropWhile white_space (rev (dropWhile white_space s)))"

text \<open>
  \<open>s.split(sep)\<close> for a separator of one code unit: the pieces between the
  separators, empty pieces included, so the result is never empty.
\<close>

fun split :: "char \<Rightarrow> string \<Rightarrow> string list" where
  "split sep [] = [[]]"
| "split sep (c # cs) =
     (if c = sep then [] # split sep cs
      else (case split sep cs of [] \<Rightarrow> [[c]] | w # ws \<Rightarrow> (c # w) # ws))"

text \<open>
  \<open>s.toLowerCase()\<close>: below U+0100 the letters with a lowercase form are A to Z and
  U+00C0 to U+00DE without the multiplication sign U+00D7, each 32 below its lowercase form.
\<close>

definition lower_char :: "char \<Rightarrow> char" where
  "lower_char c =
     (let n = (of_char c :: nat)
      in if (65 \<le> n \<and> n \<le> 90) \<or> (192 \<le> n \<and> n \<le> 222 \<and> n \<noteq> 215)
         then char_of (n + 32) else c)"

definition toLowerCase :: "string \<Rightarrow> string" where
  "toLowerCase s = map lower_char s"

text \<open>
  \<open>encodeURIComponent(s)\<close>: letters, digits and \<open>- _ . ! ~ * ' ( )\<close> stay; any other
  code unit is written as the bytes of its UTF-8 encoding, each as \<open>%XX\<close>.
\<close>

definition unreserved :: "char \<Rightarrow> bool" where
  "unreserved c =
     (c \<in> set (''ABCDEFGHIJKLMNOPQRSTUVWXYZabcdefghijklmnopqrstuvwxyz0123456789'' @ ''-_.!~*()'' @ [CHR 0x27]))"

definition percent :: "nat \<Rightarrow> string" where
  "percent b = [CHR ''%'', digit_char (b div 16), digit_char (b mod 16)]"

definition encode_unit :: "char \<Rightarrow> string" where
  "encode_unit c =
     (let n = (of_char c :: nat)
      in if unreserved c then [c]
         else if n < 128 then percent n
         else percent (192 + n div 64) @ percent (128 + n mod 64))"

definition encodeURIComponent :: "string \<Rightarrow> string" where
  "encodeURIComponent s = concat (map encode_unit s)"

text \<open>
  \<open>decodeURIComponent(s)\<close>, which a server applies to the query parameter: \<open>%XX\<close>
  is a byte, the bytes are read as UTF-8, and any other code unit stands for itself. It
  answers \<open>None\<close> where the escape is malformed or the decoded code unit is above
  U+00FF.
\<close>

definition hex_value :: "char \<Rightarrow> nat option" where
  "hex_value c =
     (let n = (of_char c :: nat)
      in if 48 \<le> n \<and> n \<le> 57 then Some (n - 48)
         else if 65 \<le> n \<and> n \<le> 70 then Some (n - 55)
         else if 97 \<le> n \<and> n \<le> 102 then Some (n - 87)
         else None)"

definition hex_byte :: "char \<Rightarrow> char \<Rightarrow> nat option" where
  "hex_byte h l =
     (case hex_value h of
        None \<Rightarrow> None
      | Some a \<Rightarrow> (case hex_value l of None \<Rightarrow> None | Some b \<Rightarrow> Some (16 * a + b)))"

fun decodeURIComponent :: "string \<Rightarrow> string option" where
  "decodeURIComponent [] = Some []"
| "decodeURIComponent (c # cs) =
     (if c \<noteq> CHR ''%'' then map_option ((#) c) (decodeURIComponent cs)
      else
        (case cs of
           h # l # rest \<Rightarrow>
             (case hex_byte h l of
                None \<Rightarrow> None
              | Some b \<Rightarrow>
                  if b < 128 then map_option ((#) (char_of b)) (decodeURIComponent rest)
                  else if b = 194 \<or> b = 195 then
                    (case rest of
                       p # h2 # l2 # rest2 \<Rightarrow>
                         if p = CHR ''%'' then
                           (case hex_byte h2 l2 of
                              None \<Rightarrow> None
                            | Some b2 \<Rightarrow>
                                if 128 \<le> b2 \<and> b2 < 192
                                then map_option ((#) (char_of ((b - 192) * 64 + (b2 - 128))))
                                       (decodeURIComponent rest2)
                                else None)
                         else None
                     | _ \<Rightarrow> None)
                  else None)
         | _ \<Rightarrow> None))"

subsection \<open>Effects\<close>

text \<open>
  A call of \<open>fetch\<close> with its arguments. The body is recorded as the value handed to
  \<open>JSON.stringify\<close>, or \<open>None\<close> where the program passes \<open>undefined\<close>.
\<close>

record request =
  req_method :: string
  req_url :: string
  req_headers :: "(string \<times> string) list"
  req_body :: "jsval option"

text \<open>An item of the search command's quick-pick.\<close>

record item =
  label :: jsval
  description :: jsval
  detail :: string
  entry :: jsval

text \<open>
  What a command does to the outside, in the order it does it. \<open>ShowInputBox\<close> carries
  the prompt and the placeholder, \<open>ShowQuickPick\<close> the offered strings and the
  placeholder, \<open>OpenTextDocument\<close> the content and the language.
\<close>

datatype event =
    ShowInputBox string string
  | ShowQuickPick "string list" string
  | ShowQuickPickItems "item list"
  | Fetch request
  | ShowErrorMessage string
  | ShowWarningMessage string
  | ShowInformationMessage string
  | OpenTextDocument string string
  | ShowTextDocument
  | ExistsSync string
  | MkdirSync string
  | FindFiles string

text \<open>
  A computation performs events and then returns a value or throws (for an \<open>async\<close>
  function: its promise is fulfilled or rejected).
\<close>

type_synonym 'a cmd = "event list \<times> 'a res"

definition return :: "'a \<Rightarrow> 'a cmd" where
  "return a = ([], Ok a)"

definition emit :: "event \<Rightarrow> unit cmd" where
  "emit e = ([e], Ok ())"

definition lift :: "'a res \<Rightarrow> 'a cmd" where
  "lift r = ([], r)"

definition andThen :: "'a cmd \<Rightarrow> ('a \<Rightarrow> 'b cmd) \<Rightarrow> 'b cmd" where
  "andThen m f =
     (case m of
        (es, Throw x) \<Rightarrow> (es, Throw x)
      | (es, Ok a) \<Rightarrow> (case f a of (es', r) \<Rightarrow> (es @ es', r)))"

definition trace :: "'a cmd \<Rightarrow> event list" where
  "trace m = fst m"

definition outcome :: "'a cmd \<Rightarrow> 'a res" where
  "outcome m = snd m"

text \<open>The calls of \<open>fetch\<close> among the events.\<close>

fun requests :: "event list \<Rightarrow> request list" where
  "requests [] = []"
| "requests (Fetch r # es) = r # requests es"
| "requests (e # es) = requests es"

subsection \<open>Configuration\<close>

text \<open>
  The settings \<open>devkb.apiUrl\<close> and \<open>devkb.dataDir\<close> as \<open>getConfig().get\<close> returns
  them: \<open>JUndefined\<close> when unset.
\<close>

record config =
  apiUrl :: jsval
  dataDir :: jsval

definition getApiUrl :: "config \<Rightarrow> jsval" where
  "getApiUrl cfg = (if truthy (apiUrl cfg) then apiUrl cfg else JStr ''http://localhost:3001'')"

definition getDataDir :: "config \<Rightarrow> jsval" where
  "getDataDir cfg = (if truthy (dataDir cfg) then dataDir cfg else JStr ''.devkb'')"

subsection \<open>The API helper\<close>

text \<open>
  How the call of \<open>fetch\<close> followed by \<open>response.json()\<close> ends: with the parsed
  body, or by throwing (no connection, a body that is not JSON); \<open>Fails\<close> carries the
  text of the error as the template literal prints it.
\<close>

datatype fetch_outcome = Responds jsval | Fails string

text \<open>The arguments \<open>apiRequest\<close> passes to \<open>fetch\<close>.\<close>

definition fetch_call :: "config \<Rightarrow> string \<Rightarrow> string \<Rightarrow> jsval \<Rightarrow> request" where
  "fetch_call cfg method endpoint data =
     \<lparr> req_method = method,
       req_url = to_string (getApiUrl cfg) @ endpoint,
       req_headers = [(''Content-Type'', ''application/json'')],
       req_body = (if truthy data then Some data else None) \<rparr>"

definition apiRequest :: "config \<Rightarrow> string \<Rightarrow> string \<Rightarrow> jsval \<Rightarrow> fetch_outcome \<Rightarrow> jsval cmd" where
  "apiRequest cfg method endpoint data answer =
     (case answer of
        Responds v \<Rightarrow>
          andThen (emit (Fetch (fetch_call cfg method endpoint data))) (\<lambda>_. return v)
      | Fails err \<Rightarrow>
          andThen (emit (Fetch (fetch_call cfg method endpoint data))) (\<lambda>_.
          andThen (emit (ShowErrorMessage (''DevKB API error: '' @ err))) (\<lambda>_.
          return JNull)))"

subsection \<open>Command: ask a question\<close>

definition askQuestion :: "config \<Rightarrow> string option \<Rightarrow> fetch_outcome \<Rightarrow> unit cmd" where
  "askQuestion cfg input answer =
     andThen (emit (ShowInputBox ''Ask a question about your codebase''
                                 ''e.g., How do we handle authentication?'')) (\<lambda>_.
     case input of
       None \<Rightarrow> return ()
     | Some question \<Rightarrow>
         if question = [] then return ()
         else
           andThen (apiRequest cfg ''POST'' ''/api/ask'' (JObj [(''question'', JStr question)]) answer)
             (\<lambda>result.
           andThen (lift (and_member result ''success''))
             (\<lambda>ok.
           if truthy ok then
             andThen (lift (member result ''data'')) (\<lambda>data.
             andThen (lift (member data ''answer'')) (\<lambda>answer.
             andThen (emit (OpenTextDocument
                        (''# Question: '' @ question @ ''\<newline>\<newline>## Answer\<newline>'' @ to_string answer)
                        ''markdown'')) (\<lambda>_.
             emit ShowTextDocument)))
           else
             emit (ShowWarningMessage
                     ''Could not get an answer. Make sure the API server is running.''))))"

subsection \<open>Command: search the knowledge base\<close>

text \<open>
  The comparison \<open>v > 0\<close>. A number compares as it is, \<open>undefined\<close> is not a number
  and \<open>null\<close> is zero. A string is parsed as floating-point text, which is not
  modelled: \<open>positive s\<close> stands for the runtime's answer to \<open>Number(s) > 0\<close>. An
  array or object is compared through its string.
\<close>

fun gt_zero :: "(string \<Rightarrow> bool) \<Rightarrow> jsval \<Rightarrow> bool" where
  "gt_zero positive JUndefined = False"
| "gt_zero positive JNull = False"
| "gt_zero positive (JBool b) = b"
| "gt_zero positive (JNum n) = (0 < n)"
| "gt_zero positive (JStr s) = positive s"
| "gt_zero positive v = positive (to_string v)"

text \<open>\<open>s.substring(0, 100)\<close>; on a value that is not a string the call throws.\<close>

fun substring_100 :: "jsval \<Rightarrow> string res" where
  "substring_100 (JStr s) = Ok (take 100 s)"
| "substring_100 v = Throw TypeError"

text \<open>The callback of \<open>result.data.map\<close>.\<close>

definition to_item :: "jsval \<Rightarrow> item res" where
  "to_item e =
     (case member e ''title'' of Throw x \<Rightarrow> Throw x | Ok title \<Rightarrow>
      case member e ''type'' of Throw x \<Rightarrow> Throw x | Ok type \<Rightarrow>
      case member e ''content'' of Throw x \<Rightarrow> Throw x | Ok content \<Rightarrow>
      case substring_100 content of Throw x \<Rightarrow> Throw x | Ok prefix \<Rightarrow>
        Ok \<lparr> label = title, description = type, detail = prefix @ ''...'', entry = e \<rparr>)"

fun map_res :: "('a \<Rightarrow> 'b res) \<Rightarrow> 'a list \<Rightarrow> 'b list res" where
  "map_res f [] = Ok []"
| "map_res f (x # xs) =
     (case f x of Throw e \<Rightarrow> Throw e | Ok y \<Rightarrow>
      case map_res f xs of Throw e \<Rightarrow> Throw e | Ok ys \<Rightarrow> Ok (y # ys))"

text \<open>\<open>data.map(f)\<close>: only an array has the method.\<close>

fun array_map :: "(jsval \<Rightarrow> 'b res) \<Rightarrow> jsval \<Rightarrow> 'b list res" where
  "array_map f (JArr xs) = map_res f xs"
| "array_map f v = Throw TypeError"

text \<open>\<open>tags.join(', ')\<close>: only an array has the method.\<close>

fun array_join :: "jsval \<Rightarrow> string \<Rightarrow> string res" where
  "array_join (JArr xs) sep = Ok (join xs sep)"
| "array_join v sep = Throw TypeError"

text \<open>
  \<open>showQuickPick\<close> resolves to one of the offered items or to \<open>undefined\<close>; the
  user's choice is the position picked, if any.
\<close>

definition showQuickPick :: "'a list \<Rightarrow> nat option \<Rightarrow> 'a option" where
  "showQuickPick items choice =
     (case choice of
        None \<Rightarrow> None
      | Some i \<Rightarrow> if i < length items then Some (items ! i) else None)"

definition search ::
  "(string \<Rightarrow> bool) \<Rightarrow> config \<Rightarrow> string option \<Rightarrow> fetch_outcome \<Rightarrow> nat option \<Rightarrow> unit cmd" where
  "search positive cfg input answer choice =
     andThen (emit (ShowInputBox ''Search the knowledge base'' ''Enter search terms...'')) (\<lambda>_.
     case input of
       None \<Rightarrow> return ()
     | Some query \<Rightarrow>
         if query = [] then return ()
         else
           andThen (apiRequest cfg ''GET'' (''/api/search?q='' @ encodeURIComponent query)
                      JUndefined answer) (\<lambda>result.
           andThen (lift (and_member result ''success''))
             (\<lambda>ok.
           andThen (if truthy ok
                    then andThen (lift (member result ''data'')) (\<lambda>data.
                         andThen (lift (member data ''length'')) (\<lambda>len.
                         return (gt_zero positive len)))
                    else return False) (\<lambda>found.
           if found then
             andThen (lift (member result ''data'')) (\<lambda>data.
             andThen (lift (array_map to_item data)) (\<lambda>items.
             andThen (emit (ShowQuickPickItems items)) (\<lambda>_.
             case showQuickPick items choice of
               None \<Rightarrow> return ()
             | Some selected \<Rightarrow>
                 if truthy (entry selected) then
                   andThen (lift (member (entry selected) ''title'')) (\<lambda>title.
                   andThen (lift (member (entry selected) ''type'')) (\<lambda>type.
                   andThen (lift (member (entry selected) ''tags'')) (\<lambda>tags.
                   andThen (lift (array_join tags '', '')) (\<lambda>joined.
                   andThen (lift (member (entry selected) ''content'')) (\<lambda>content.
                   andThen (emit (OpenTextDocument
                              (''# '' @ to_string title @ ''\<newline>\<newline>**Type:** '' @ to_string type
                               @ ''\<newline>**Tags:** '' @ joined
                               @ ''\<newline>\<newline>---\<newline>\<newline>'' @ to_string content)
                              ''markdown'')) (\<lambda>_.
                   emit ShowTextDocument))))))
                 else return ())))
           else
             emit (ShowInformationMessage ''No results found.'')))))"

subsection \<open>Command: add a knowledge entry\<close>

definition entry_types :: "string list" where
  "entry_types =
     [''code'', ''documentation'', ''decision'', ''conversation'', ''architecture'', ''process'']"

text \<open>\<open>x || d\<close> for \<open>x\<close> of type \<open>string | undefined\<close> and a string \<open>d\<close>.\<close>

fun or_else :: "string option \<Rightarrow> string \<Rightarrow> string" where
  "or_else None d = d"
| "or_else (Some s) d = (if s \<noteq> [] then s else d)"

text \<open>\<open>tags ? tags.split(',').map(t => t.trim()) : []\<close>\<close>

definition tags_of :: "string option \<Rightarrow> string list" where
  "tags_of tags =
     (case tags of
        None \<Rightarrow> []
      | Some t \<Rightarrow> if t = [] then [] else map trim (split CHR '','' t))"

definition addEntry ::
  "config \<Rightarrow> string option \<Rightarrow> nat option \<Rightarrow> string option \<Rightarrow> string option \<Rightarrow> string option
     \<Rightarrow> fetch_outcome \<Rightarrow> unit cmd" where
  "addEntry cfg selectedText choice title_input content_input tags answer =
     andThen (emit (ShowQuickPick entry_types ''Select entry type'')) (\<lambda>_.
     case showQuickPick entry_types choice of
       None \<Rightarrow> return ()
     | Some type \<Rightarrow>
         if type = [] then return ()
         else
           andThen (emit (ShowInputBox ''Enter entry title'' ''e.g., Authentication Flow'')) (\<lambda>_.
           case title_input of
             None \<Rightarrow> return ()
           | Some title \<Rightarrow>
               if title = [] then return ()
               else
                 andThen (emit (ShowInputBox ''Enter entry content''
                            (or_else selectedText ''Enter the knowledge content...''))) (\<lambda>_.
                 if \<not> truthy_str content_input \<and> \<not> truthy_str selectedText then
                   emit (ShowWarningMessage ''Content is required'')
                 else
                   let content = or_else content_input (or_else selectedText [])
                   in
                   andThen (emit (ShowInputBox ''Enter tags (comma-separated)''
                              ''e.g., auth, security, jwt'')) (\<lambda>_.
                   andThen (apiRequest cfg ''POST'' ''/api/entries''
                              (JObj [(''type'', JStr type),
                                     (''title'', JStr title),
                                     (''content'', JStr content),
                                     (''tags'', JArr (map JStr (tags_of tags))),
                                     (''source'', JStr ''vscode'')])
                              answer) (\<lambda>result.
                   andThen (lift (and_member result ''success'')) (\<lambda>ok.
                   if truthy ok then
                     emit (ShowInformationMessage
                             (''Entry '' @ [CHR 0x22] @ title @ [CHR 0x22] @ '' created successfully!''))
                   else
                     emit (ShowErrorMessage ''Failed to create entry'')))))))"

subsection \<open>Command: index the current project\<close>

text \<open>
  \<open>path.join\<close> depends on the platform and is a parameter; given anything but strings
  it throws. The environment says which workspace folders are open (their \<open>fsPath\<close>),
  whether the data directory exists, whether creating it succeeds, and how many files
  \<open>findFiles\<close> returns.
\<close>

fun join_path :: "(string \<Rightarrow> string \<Rightarrow> string) \<Rightarrow> string \<Rightarrow> jsval \<Rightarrow> string res" where
  "join_path path_join a (JStr b) = Ok (path_join a b)"
| "join_path path_join a v = Throw TypeError"

definition indexProject ::
  "(string \<Rightarrow> string \<Rightarrow> string) \<Rightarrow> config \<Rightarrow> string list option \<Rightarrow> bool \<Rightarrow> bool \<Rightarrow> nat
     \<Rightarrow> unit cmd" where
  "indexProject path_join cfg workspaceFolders exists mkdir_ok files =
     (case workspaceFolders of
        None \<Rightarrow> emit (ShowWarningMessage ''No workspace folder open'')
      | Some [] \<Rightarrow> emit (ShowWarningMessage ''No workspace folder open'')
      | Some (folder # others) \<Rightarrow>
          andThen (lift (join_path path_join folder (getDataDir cfg))) (\<lambda>dir.
          andThen (emit (ExistsSync dir)) (\<lambda>_.
          andThen (if \<not> exists
                   then andThen (emit (MkdirSync dir)) (\<lambda>_.
                        if mkdir_ok then return () else lift (Throw FsError))
                   else return ()) (\<lambda>_.
          andThen (emit (FindFiles folder)) (\<lambda>_.
          andThen (emit (ShowInformationMessage
                           (''Found '' @ show_nat files @ '' files to index''))) (\<lambda>_.
          emit (ShowInformationMessage ''Use the DevKB CLI to index: devkb index'')))))))"

subsection \<open>Command: show statistics\<close>

text \<open>
  \<open>Object.entries(v)\<close>: the own enumerable properties, which for a string and an array
  are the indices; it throws on \<open>undefined\<close> and \<open>null\<close>.
\<close>

fun object_entries :: "jsval \<Rightarrow> (string \<times> jsval) list res" where
  "object_entries JUndefined = Throw TypeError"
| "object_entries JNull = Throw TypeError"
| "object_entries (JBool b) = Ok []"
| "object_entries (JNum n) = Ok []"
| "object_entries (JStr s) = Ok (zip (map show_nat [0 ..< length s]) (map (\<lambda>c. JStr [c]) s))"
| "object_entries (JArr xs) = Ok (zip (map show_nat [0 ..< length xs]) xs)"
| "object_entries (JObj kvs) = Ok kvs"

definition showStats :: "config \<Rightarrow> fetch_outcome \<Rightarrow> unit cmd" where
  "showStats cfg answer =
     andThen (apiRequest cfg ''GET'' ''/api/stats'' JUndefined answer) (\<lambda>result.
     andThen (lift (and_member result ''success'')) (\<lambda>ok.
     if truthy ok then
       andThen (lift (member result ''data'')) (\<lambda>stats.
       andThen (lift (member stats ''totalEntries'')) (\<lambda>totalEntries.
       andThen (lift (member stats ''totalTags'')) (\<lambda>totalTags.
       andThen (lift (member stats ''searchHistoryCount'')) (\<lambda>searchHistoryCount.
       andThen (lift (member stats ''byType'')) (\<lambda>byType.
       andThen (lift (object_entries byType)) (\<lambda>entries.
       emit (ShowInformationMessage
               (intercalate ''\<newline>''
                  ([''Total Entries: '' @ to_string totalEntries,
                    ''Unique Tags: '' @ to_string totalTags,
                    ''Searches: '' @ to_string searchHistoryCount,
                    [],
                    ''By Type:'']
                   @ map (\<lambda>(type, count). ''  '' @ type @ '': '' @ to_string count) entries)))))))))
     else
       emit (ShowWarningMessage ''Could not load statistics'')))"

subsection \<open>Observing a run\<close>

text \<open>A field of the object a request carries as its body, if it has one.\<close>

fun body_field :: "request \<Rightarrow> string \<Rightarrow> jsval option" where
  "body_field r k = (case req_body r of Some (JObj kvs) \<Rightarrow> map_of kvs k | _ \<Rightarrow> None)"

text \<open>The notifications shown by \<open>showWarningMessage\<close> and \<open>showInformationMessage\<close>.\<close>

fun warning_or_information :: "event \<Rightarrow> bool" where
  "warning_or_information (ShowWarningMessage m) = True"
| "warning_or_information (ShowInformationMessage m) = True"
| "warning_or_information e = False"

section \<open>Laws of the effect combinators\<close>

lemma trace_andThen:
  "trace (andThen m f) =
     (case outcome m of Ok a \<Rightarrow> trace m @ trace (f a) | Throw x \<Rightarrow> trace m)"
  by (cases m) (simp add: andThen_def trace_def outcome_def split: res.splits prod.splits)

lemma outcome_andThen:
  "outcome (andThen m f) = (case outcome m of Ok a \<Rightarrow> outcome (f a) | Throw x \<Rightarrow> Throw x)"
  by (cases m) (simp add: andThen_def trace_def outcome_def split: res.splits prod.splits)

lemma trace_emit: "trace (emit e) = [e]"
  by (simp add: trace_def emit_def)

lemma outcome_emit: "outcome (emit e) = Ok ()"
  by (simp add: outcome_def emit_def)

lemma trace_return: "trace (return a) = []"
  by (simp add: trace_def return_def)

lemma outcome_return: "outcome (return a) = Ok a"
  by (simp add: outcome_def return_def)

lemma trace_lift: "trace (lift r) = []"
  by (simp add: trace_def lift_def)

lemma outcome_lift: "outcome (lift r) = r"
  by (simp add: outcome_def lift_def)

lemmas cmd_simps = trace_andThen outcome_andThen trace_emit outcome_emit trace_return
  outcome_return trace_lift outcome_lift

lemma and_member_Ok: "\<exists>w. and_member v k = Ok w"
  by (cases v) (simp_all add: and_member_def)

lemma trace_apiRequest:
  "trace (apiRequest cfg m ep d answer) =
     Fetch (fetch_call cfg m ep d)
     # (case answer of
          Responds v \<Rightarrow> []
        | Fails err \<Rightarrow> [ShowErrorMessage (''DevKB API error: '' @ err)])"
  by (cases answer) (simp_all add: apiRequest_def cmd_simps)

lemma outcome_apiRequest:
  "outcome (apiRequest cfg m ep d answer) =
     Ok (case answer of Responds v \<Rightarrow> v | Fails err \<Rightarrow> JNull)"
  by (cases answer) (simp_all add: apiRequest_def cmd_simps)

section \<open>The entry-creation request\<close>

lemma showQuickPick_mem: "showQuickPick items choice = Some x \<Longrightarrow> x \<in> set items"
  by (auto simp: showQuickPick_def split: option.splits if_splits)

lemma entry_type_nonempty: "t \<in> set entry_types \<Longrightarrow> t \<noteq> []"
  by (auto simp: entry_types_def)

text \<open>
  The command calls \<open>fetch\<close> at most once: when a type was picked, the title is not
  empty and the content box or the selection is not empty.
\<close>

lemma addEntry_requests:
  "requests (trace (addEntry cfg sel choice ti co tags answer)) =
     (case showQuickPick entry_types choice of
        None \<Rightarrow> []
      | Some type \<Rightarrow>
          (case ti of
             None \<Rightarrow> []
           | Some title \<Rightarrow>
               if title = [] then []
               else if \<not> truthy_str co \<and> \<not> truthy_str sel then []
               else [fetch_call cfg ''POST'' ''/api/entries''
                       (JObj [(''type'', JStr type),
                              (''title'', JStr title),
                              (''content'', JStr (or_else co (or_else sel []))),
                              (''tags'', JArr (map JStr (tags_of tags))),
                              (''source'', JStr ''vscode'')])]))"
proof (cases "showQuickPick entry_types choice")
  case None
  then show ?thesis by (simp add: addEntry_def cmd_simps)
next
  case (Some type)
  then have ne: "type \<noteq> []" by (rule entry_type_nonempty [OF showQuickPick_mem])
  show ?thesis
  proof (cases ti)
    case None
    then show ?thesis using Some ne by (simp add: addEntry_def cmd_simps)
  next
    case ti: (Some title)
    show ?thesis
    proof (cases "title = []")
      case True
      then show ?thesis using Some ne ti by (simp add: addEntry_def cmd_simps)
    next
      case tne: False
      show ?thesis
      proof (cases "\<not> truthy_str co \<and> \<not> truthy_str sel")
        case True
        then show ?thesis using Some ne ti tne by (simp add: addEntry_def cmd_simps)
      next
        case False
        show ?thesis
        proof (cases answer)
          case (Responds v)
          obtain w where w: "and_member v ''success'' = Ok w"
            using and_member_Ok [of v "''success''"] ..
          show ?thesis using Some ne ti tne False Responds w
            by (simp add: addEntry_def cmd_simps trace_apiRequest outcome_apiRequest Let_def)
        next
          case (Fails err)
          have w: "and_member JNull ''success'' = Ok JNull"
            by (simp add: and_member_def)
          show ?thesis using Some ne ti tne False Fails w
            by (simp add: addEntry_def cmd_simps trace_apiRequest outcome_apiRequest Let_def)
        qed
      qed
    qed
  qed
qed

lemma addEntry_request_body:
  assumes "r \<in> set (requests (trace (addEntry cfg sel choice ti co tags answer)))"
  shows "\<exists>type title.
           showQuickPick entry_types choice = Some type \<and> ti = Some title \<and> title \<noteq> []
           \<and> (truthy_str co \<or> truthy_str sel)
           \<and> r = fetch_call cfg ''POST'' ''/api/entries''
                   (JObj [(''type'', JStr type),
                          (''title'', JStr title),
                          (''content'', JStr (or_else co (or_else sel []))),
                          (''tags'', JArr (map JStr (tags_of tags))),
                          (''source'', JStr ''vscode'')])"
proof (cases "showQuickPick entry_types choice")
  case None
  then show ?thesis using assms by (simp add: addEntry_requests)
next
  case (Some type)
  show ?thesis
  proof (cases ti)
    case None
    then show ?thesis using assms Some by (simp add: addEntry_requests)
  next
    case ti: (Some title)
    show ?thesis using assms Some ti
      by (simp add: addEntry_requests split: if_splits)
  qed
qed

subsection \<open>Tags\<close>

lemma dropWhile_fix: "xs = [] \<or> \<not> P (hd xs) \<Longrightarrow> dropWhile P xs = xs"
  by (cases xs) auto

lemma trim_idem: "trim (trim s) = trim s"
proof -
  define a where "a = dropWhile white_space s"
  define b where "b = dropWhile white_space (rev a)"
  have b_fix: "dropWhile white_space b = b"
    unfolding b_def by (rule dropWhile_idem)
  have "rev b = [] \<or> \<not> white_space (hd (rev b))"
  proof (cases "b = []")
    case True
    then show ?thesis by simp
  next
    case False
    then have "last b = last (rev a)"
      unfolding b_def by (metis dropWhile_eq_Nil_conv dropWhile_last)
    moreover from False have "a \<noteq> []" unfolding b_def by auto
    ultimately have "last b = hd a" by (simp add: last_rev)
    moreover from \<open>a \<noteq> []\<close> have "\<not> white_space (hd a)"
      unfolding a_def by (rule hd_dropWhile)
    ultimately show ?thesis using False by (simp add: hd_rev)
  qed
  then have "dropWhile white_space (rev b) = rev b" by (rule dropWhile_fix)
  then show ?thesis
    unfolding trim_def a_def [symmetric] b_def [symmetric] by (simp add: b_fix)
qed

lemma tags_of_trimmed: "t \<in> set (tags_of tags) \<Longrightarrow> trim t = t"
  by (auto simp: tags_of_def trim_idem split: option.splits if_splits)

lemma split_nonempty: "split sep s \<noteq> []"
  by (induction s) (auto split: list.splits)

lemma intercalate_Cons: "ys \<noteq> [] \<Longrightarrow> intercalate sep (x # ys) = x @ sep @ intercalate sep ys"
  by (cases ys) simp_all

lemma intercalate_split: "intercalate [sep] (split sep s) = s"
proof (induction s)
  case Nil
  show ?case by simp
next
  case (Cons c cs)
  show ?case
  proof (cases "c = sep")
    case True
    then show ?thesis using Cons by (simp add: intercalate_Cons split_nonempty)
  next
    case False
    obtain w ws where w: "split sep cs = w # ws"
      using split_nonempty [of sep cs] by (cases "split sep cs") auto
    have "intercalate [sep] ((c # w) # ws) = c # intercalate [sep] (w # ws)"
      by (cases ws) simp_all
    then show ?thesis using False Cons w by simp
  qed
qed

lemma split_no_sep: "p \<in> set (split sep s) \<Longrightarrow> sep \<notin> set p"
proof (induction s arbitrary: p)
  case Nil
  then show ?case by simp
next
  case (Cons c cs)
  obtain w ws where w: "split sep cs = w # ws"
    using split_nonempty [of sep cs] by (cases "split sep cs") auto
  show ?case
  proof (cases "c = sep")
    case True
    then show ?thesis using Cons by auto
  next
    case False
    have "sep \<notin> set w" and "\<And>q. q \<in> set ws \<Longrightarrow> sep \<notin> set q"
      using Cons.IH w by simp_all
    then show ?thesis using Cons.prems False w by auto
  qed
qed

lemma trim_padding:
  "\<exists>l r. p = l @ trim p @ r \<and> (\<forall>c \<in> set l. white_space c) \<and> (\<forall>c \<in> set r. white_space c)"
proof -
  define a where "a = dropWhile white_space p"
  have 1: "p = takeWhile white_space p @ a"
    unfolding a_def by simp
  have "rev a = takeWhile white_space (rev a) @ dropWhile white_space (rev a)"
    by simp
  then have "rev (rev a) = rev (takeWhile white_space (rev a) @ dropWhile white_space (rev a))"
    by (rule arg_cong)
  then have 2: "a = trim p @ rev (takeWhile white_space (rev a))"
    unfolding trim_def a_def by (simp only: rev_rev_ident rev_append)
  have 3: "\<forall>c \<in> set (takeWhile white_space p). white_space c"
    by (auto dest: set_takeWhileD)
  have 4: "\<forall>c \<in> set (rev (takeWhile white_space (rev a))). white_space c"
    by (auto dest: set_takeWhileD)
  from 1 2 have "p = takeWhile white_space p @ trim p @ rev (takeWhile white_space (rev a))"
    by simp
  with 3 4 show ?thesis by blast
qed

lemma tags_of_pieces:
  assumes "s \<noteq> []"
  shows "\<exists>ps. s = intercalate '','' ps \<and> (\<forall>p \<in> set ps. CHR '','' \<notin> set p)
              \<and> list_all2 (\<lambda>p t. \<exists>l r. p = l @ t @ r \<and> (\<forall>c \<in> set l. white_space c)
                                          \<and> (\<forall>c \<in> set r. white_space c))
                   ps (tags_of (Some s))"
proof -
  let ?ps = "split CHR '','' s"
  have "s = intercalate '','' ?ps" by (simp add: intercalate_split)
  moreover have "\<forall>p \<in> set ?ps. CHR '','' \<notin> set p" by (simp add: split_no_sep)
  moreover have "list_all2 (\<lambda>p t. \<exists>l r. p = l @ t @ r \<and> (\<forall>c \<in> set l. white_space c)
                                          \<and> (\<forall>c \<in> set r. white_space c))
                   ?ps (map trim ?ps)"
    unfolding list_all2_map2 by (rule list_all2_refl) (rule trim_padding)
  moreover have "tags_of (Some s) = map trim ?ps" using assms by (simp add: tags_of_def)
  ultimately show ?thesis by (intro exI [of _ ?ps]) simp
qed

lemma trim_ends:
  "trim s = [] \<or> (\<not> white_space (hd (trim s)) \<and> \<not> white_space (last (trim s)))"
proof (cases "trim s = []")
  case True
  then show ?thesis by simp
next
  case False
  define a where "a = dropWhile white_space s"
  define b where "b = dropWhile white_space (rev a)"
  have t: "trim s = rev b" unfolding trim_def a_def b_def by simp
  with False have bne: "b \<noteq> []" by simp
  then have ane: "a \<noteq> []" unfolding b_def by auto
  have "last b = last (rev a)"
    using bne unfolding b_def by (metis dropWhile_eq_Nil_conv dropWhile_last)
  then have "last b = hd a" using ane by (simp add: last_rev)
  moreover have "\<not> white_space (hd a)"
    using ane unfolding a_def by (rule hd_dropWhile)
  ultimately have 1: "\<not> white_space (hd (trim s))" using bne t by (simp add: hd_rev)
  have "\<not> white_space (hd b)" using bne unfolding b_def by (rule hd_dropWhile)
  then have 2: "\<not> white_space (last (trim s))" using bne t by (simp add: last_rev)
  from 1 2 show ?thesis by simp
qed

lemma tags_of_ends:
  "t \<in> set (tags_of tags) \<Longrightarrow> t = [] \<or> (\<not> white_space (hd t) \<and> \<not> white_space (last t))"
  using trim_ends by (auto simp: tags_of_def split: option.splits if_splits)

text \<open>
  Claim C1, as the code has it: every request the add-entry command sends carries a
  \<open>tags\<close> field that is an array of strings. With no tags input or an empty one the
  array is empty. Otherwise the input is the tags joined by commas, each tag padded on
  both sides by white space only and holding no comma, so every tag is a stretch of
  the input with its letters as typed; and every tag equals its trimmed form, with no
  white space at either end. The pieces are trimmed, not lowercased.
\<close>

theorem addEntry_tags_trimmed:
  assumes "r \<in> set (requests (trace (addEntry cfg sel choice ti co tags answer)))"
  shows "\<exists>ts. body_field r ''tags'' = Some (JArr (map JStr ts))
            \<and> (\<forall>t \<in> set ts. t = trim t)
            \<and> (\<forall>t \<in> set ts. t = [] \<or> (\<not> white_space (hd t) \<and> \<not> white_space (last t)))
            \<and> (case tags of
                  None \<Rightarrow> ts = []
                | Some s \<Rightarrow>
                    if s = [] then ts = []
                    else \<exists>ps. s = intercalate '','' ps
                           \<and> (\<forall>p \<in> set ps. CHR '','' \<notin> set p)
                           \<and> list_all2
                                (\<lambda>p t. \<exists>lead rear. p = lead @ t @ rear
                                           \<and> (\<forall>c \<in> set lead. white_space c)
                                           \<and> (\<forall>c \<in> set rear. white_space c))
                                ps ts)"
proof -
  from addEntry_request_body [OF assms]
  have 1: "body_field r ''tags'' = Some (JArr (map JStr (tags_of tags)))"
    by (auto simp: fetch_call_def)
  have 2: "\<forall>t \<in> set (tags_of tags). t = trim t"
    by (simp add: tags_of_trimmed)
  have 3: "\<forall>t \<in> set (tags_of tags).
             t = [] \<or> (\<not> white_space (hd t) \<and> \<not> white_space (last t))"
    using tags_of_ends by blast
  have 4: "case tags of
             None \<Rightarrow> tags_of tags = []
           | Some s \<Rightarrow>
               if s = [] then tags_of tags = []
               else \<exists>ps. s = intercalate '','' ps
                      \<and> (\<forall>p \<in> set ps. CHR '','' \<notin> set p)
                      \<and> list_all2
                           (\<lambda>p t. \<exists>lead rear. p = lead @ t @ rear
                                      \<and> (\<forall>c \<in> set lead. white_space c)
                                      \<and> (\<forall>c \<in> set rear. white_space c))
                           ps (tags_of tags)"
  proof (cases tags)
    case None
    then show ?thesis by (simp add: tags_of_def)
  next
    case (Some s)
    show ?thesis
    proof (cases "s = []")
      case True
      then show ?thesis using Some by (simp add: tags_of_def)
    next
      case False
      from tags_of_pieces [OF False] show ?thesis using Some False by simp
    qed
  qed
  from 1 2 3 4 show ?thesis by (intro exI [of _ "tags_of tags"] conjI)
qed

theorem addEntry_tags_trimmed_witness:
  "fetch_call \<lparr>apiUrl = JUndefined, dataDir = JUndefined\<rparr> ''POST'' ''/api/entries''
     (JObj [(''type'', JStr ''decision''), (''title'', JStr ''Use JWT''),
            (''content'', JStr ''Tokens expire hourly''),
            (''tags'', JArr [JStr ''Auth'', JStr ''JWT'']),
            (''source'', JStr ''vscode'')])
   \<in> set (requests (trace (addEntry \<lparr>apiUrl = JUndefined, dataDir = JUndefined\<rparr> None (Some 2)
              (Some ''Use JWT'') (Some ''Tokens expire hourly'') (Some '' Auth, JWT '')
              (Responds (JObj [(''success'', JBool True)])))))
   \<and> (\<exists>ts. body_field
              (fetch_call \<lparr>apiUrl = JUndefined, dataDir = JUndefined\<rparr> ''POST'' ''/api/entries''
                 (JObj [(''type'', JStr ''decision''), (''title'', JStr ''Use JWT''),
                        (''content'', JStr ''Tokens expire hourly''),
                        (''tags'', JArr [JStr ''Auth'', JStr ''JWT'']),
                        (''source'', JStr ''vscode'')])) ''tags''
             = Some (JArr (map JStr ts))
            \<and> (\<forall>t \<in> set ts. t = trim t)
            \<and> (\<forall>t \<in> set ts. t = [] \<or> (\<not> white_space (hd t) \<and> \<not> white_space (last t)))
            \<and> (case Some '' Auth, JWT '' of
                  None \<Rightarrow> ts = []
                | Some s \<Rightarrow>
                    if s = [] then ts = []
                    else \<exists>ps. s = intercalate '','' ps
                           \<and> (\<forall>p \<in> set ps. CHR '','' \<notin> set p)
                           \<and> list_all2
                                (\<lambda>p t. \<exists>lead rear. p = lead @ t @ rear
                                           \<and> (\<forall>c \<in> set lead. white_space c)
                                           \<and> (\<forall>c \<in> set rear. white_space c))
                                ps ts))"
  (is "?H \<and> ?C")
proof -
  have h: ?H
    by (simp add: addEntry_requests showQuickPick_def entry_types_def tags_of_def trim_def
                  white_space_def)
  from h addEntry_tags_trimmed [OF h] show ?thesis by (rule conjI)
qed

text \<open>
  The tags input \<open>Auth\<close> is sent as it was typed, and it is not its lowercase form.
\<close>

theorem addEntry_tags_lowercase_counterexample:
  "map (\<lambda>r. body_field r ''tags'')
     (requests (trace (addEntry \<lparr>apiUrl = JUndefined, dataDir = JUndefined\<rparr> None (Some 2)
        (Some ''Use JWT'') (Some ''Tokens expire hourly'') (Some ''Auth'')
        (Responds (JObj [(''success'', JBool True)])))))
   = [Some (JArr [JStr ''Auth''])]
   \<and> toLowerCase ''Auth'' = ''auth'' \<and> ''Auth'' \<noteq> toLowerCase ''Auth''"
proof -
  have "toLowerCase ''Auth'' = ''auth''" by code_simp
  then show ?thesis
    by (simp add: addEntry_requests showQuickPick_def entry_types_def tags_of_def trim_def
                  white_space_def fetch_call_def)
qed

subsection \<open>Shape of the payload\<close>

text \<open>
  Claim C2: every request the add-entry command sends is a POST to \<open>/api/entries\<close>
  under the base URL, and its body is an object with exactly the fields \<open>type\<close>,
  \<open>title\<close>, \<open>content\<close>, \<open>tags\<close> and \<open>source\<close>, in this order: the first three
  strings, \<open>tags\<close> an array of strings, and \<open>source\<close> the string \<open>vscode\<close>.
\<close>

theorem addEntry_payload_shape:
  assumes "r \<in> set (requests (trace (addEntry cfg sel choice ti co tags answer)))"
  shows "req_method r = ''POST''
         \<and> req_url r = to_string (getApiUrl cfg) @ ''/api/entries''
         \<and> (\<exists>type title content ts.
               req_body r = Some (JObj [(''type'', JStr type),
                                        (''title'', JStr title),
                                        (''content'', JStr content),
                                        (''tags'', JArr (map JStr ts)),
                                        (''source'', JStr ''vscode'')]))"
proof -
  from addEntry_request_body [OF assms] obtain type title where
    r: "r = fetch_call cfg ''POST'' ''/api/entries''
              (JObj [(''type'', JStr type),
                     (''title'', JStr title),
                     (''content'', JStr (or_else co (or_else sel []))),
                     (''tags'', JArr (map JStr (tags_of tags))),
                     (''source'', JStr ''vscode'')])"
    by auto
  have "req_method r = ''POST''" and "req_url r = to_string (getApiUrl cfg) @ ''/api/entries''"
    by (simp_all add: r fetch_call_def)
  moreover have "req_body r = Some (JObj [(''type'', JStr type),
                     (''title'', JStr title),
                     (''content'', JStr (or_else co (or_else sel []))),
                     (''tags'', JArr (map JStr (tags_of tags))),
                     (''source'', JStr ''vscode'')])"
    by (simp add: r fetch_call_def)
  ultimately show ?thesis by (intro conjI exI)
qed

theorem addEntry_payload_shape_witness:
  "fetch_call \<lparr>apiUrl = JUndefined, dataDir = JUndefined\<rparr> ''POST'' ''/api/entries''
     (JObj [(''type'', JStr ''code''), (''title'', JStr ''Retry helper''),
            (''content'', JStr ''fetchWithRetry(url, 3)''),
            (''tags'', JArr [JStr ''http'', JStr ''retry'']),
            (''source'', JStr ''vscode'')])
   \<in> set (requests (trace (addEntry \<lparr>apiUrl = JUndefined, dataDir = JUndefined\<rparr>
              (Some ''fetchWithRetry(url, 3)'') (Some 0) (Some ''Retry helper'') (Some [])
              (Some ''http,retry'') (Fails ''TypeError: fetch failed''))))
   \<and> (req_method
         (fetch_call \<lparr>apiUrl = JUndefined, dataDir = JUndefined\<rparr> ''POST'' ''/api/entries''
            (JObj [(''type'', JStr ''code''), (''title'', JStr ''Retry helper''),
                   (''content'', JStr ''fetchWithRetry(url, 3)''),
                   (''tags'', JArr [JStr ''http'', JStr ''retry'']),
                   (''source'', JStr ''vscode'')])) = ''POST''
      \<and> req_url
         (fetch_call \<lparr>apiUrl = JUndefined, dataDir = JUndefined\<rparr> ''POST'' ''/api/entries''
            (JObj [(''type'', JStr ''code''), (''title'', JStr ''Retry helper''),
                   (''content'', JStr ''fetchWithRetry(url, 3)''),
                   (''tags'', JArr [JStr ''http'', JStr ''retry'']),
                   (''source'', JStr ''vscode'')]))
        = to_string (getApiUrl \<lparr>apiUrl = JUndefined, dataDir = JUndefined\<rparr>) @ ''/api/entries''
      \<and> (\<exists>type title content ts.
            req_body
              (fetch_call \<lparr>apiUrl = JUndefined, dataDir = JUndefined\<rparr> ''POST'' ''/api/entries''
                 (JObj [(''type'', JStr ''code''), (''title'', JStr ''Retry helper''),
                        (''content'', JStr ''fetchWithRetry(url, 3)''),
                        (''tags'', JArr [JStr ''http'', JStr ''retry'']),
                        (''source'', JStr ''vscode'')]))
            = Some (JObj [(''type'', JStr type),
                          (''title'', JStr title),
                          (''content'', JStr content),
                          (''tags'', JArr (map JStr ts)),
                          (''source'', JStr ''vscode'')])))"
  (is "?H \<and> ?C")
proof -
  have h: ?H
    by (simp add: addEntry_requests showQuickPick_def entry_types_def tags_of_def trim_def
                  white_space_def)
  from h addEntry_payload_shape [OF h] show ?thesis by (rule conjI)
qed

subsection \<open>Type of the entry\<close>

lemma trace_andThen_emit: "trace (andThen (emit e) f) = e # trace (f ())"
  by (simp add: cmd_simps)

lemma addEntry_first:
  "\<exists>es. trace (addEntry cfg sel choice ti co tags answer)
        = ShowQuickPick entry_types ''Select entry type'' # es"
  unfolding addEntry_def trace_andThen_emit by (rule exI) (rule refl)

text \<open>
  Claim C3: the add-entry command first shows a quick-pick offering exactly \<open>code\<close>,
  \<open>documentation\<close>, \<open>decision\<close>, \<open>conversation\<close>, \<open>architecture\<close> and
  \<open>process\<close>; when none of them is chosen it sends no request; and the \<open>type\<close> field
  of every request it sends is one of these six strings.
\<close>

theorem addEntry_type_enumerated:
  "(\<exists>es. trace (addEntry cfg sel choice ti co tags answer)
          = ShowQuickPick [''code'', ''documentation'', ''decision'', ''conversation'',
                           ''architecture'', ''process''] ''Select entry type'' # es)
   \<and> (showQuickPick [''code'', ''documentation'', ''decision'', ''conversation'',
                      ''architecture'', ''process''] choice = None
        \<longrightarrow> requests (trace (addEntry cfg sel choice ti co tags answer)) = [])
   \<and> (\<forall>r \<in> set (requests (trace (addEntry cfg sel choice ti co tags answer))).
         \<exists>t \<in> set [''code'', ''documentation'', ''decision'', ''conversation'',
                     ''architecture'', ''process''].
           body_field r ''type'' = Some (JStr t))"
proof (intro conjI)
  show "\<exists>es. trace (addEntry cfg sel choice ti co tags answer)
          = ShowQuickPick [''code'', ''documentation'', ''decision'', ''conversation'',
                           ''architecture'', ''process''] ''Select entry type'' # es"
    using addEntry_first [of cfg sel choice ti co tags answer]
    by (simp only: entry_types_def)
  show "showQuickPick [''code'', ''documentation'', ''decision'', ''conversation'',
                      ''architecture'', ''process''] choice = None
        \<longrightarrow> requests (trace (addEntry cfg sel choice ti co tags answer)) = []"
    by (simp add: addEntry_requests entry_types_def)
  show "\<forall>r \<in> set (requests (trace (addEntry cfg sel choice ti co tags answer))).
         \<exists>t \<in> set [''code'', ''documentation'', ''decision'', ''conversation'',
                     ''architecture'', ''process''].
           body_field r ''type'' = Some (JStr t)"
  proof
    fix r
    assume "r \<in> set (requests (trace (addEntry cfg sel choice ti co tags answer)))"
    from addEntry_request_body [OF this] obtain type title where
      t: "showQuickPick entry_types choice = Some type" and
      r: "r = fetch_call cfg ''POST'' ''/api/entries''
              (JObj [(''type'', JStr type),
                     (''title'', JStr title),
                     (''content'', JStr (or_else co (or_else sel []))),
                     (''tags'', JArr (map JStr (tags_of tags))),
                     (''source'', JStr ''vscode'')])"
      by auto
    have "type \<in> set entry_types" using t by (rule showQuickPick_mem)
    moreover have "body_field r ''type'' = Some (JStr type)"
      by (simp add: r fetch_call_def)
    ultimately show "\<exists>t \<in> set [''code'', ''documentation'', ''decision'', ''conversation'',
                     ''architecture'', ''process'']. body_field r ''type'' = Some (JStr t)"
      unfolding entry_types_def by (rule_tac x = type in bexI)
  qed
qed

theorem addEntry_type_enumerated_witness:
  "(showQuickPick [''code'', ''documentation'', ''decision'', ''conversation'',
                   ''architecture'', ''process''] None = None
    \<and> requests (trace (addEntry \<lparr>apiUrl = JUndefined, dataDir = JUndefined\<rparr> None None
          (Some ''Use JWT'') (Some ''Tokens expire hourly'') None (Responds JNull))) = [])
   \<and> (fetch_call \<lparr>apiUrl = JUndefined, dataDir = JUndefined\<rparr> ''POST'' ''/api/entries''
         (JObj [(''type'', JStr ''conversation''), (''title'', JStr ''Use JWT''),
                (''content'', JStr ''Tokens expire hourly''),
                (''tags'', JArr []),
                (''source'', JStr ''vscode'')])
       \<in> set (requests (trace (addEntry \<lparr>apiUrl = JUndefined, dataDir = JUndefined\<rparr> None
                 (Some 3) (Some ''Use JWT'') (Some ''Tokens expire hourly'') None
                 (Responds JNull))))
      \<and> (\<exists>t \<in> set [''code'', ''documentation'', ''decision'', ''conversation'',
                      ''architecture'', ''process''].
            body_field
              (fetch_call \<lparr>apiUrl = JUndefined, dataDir = JUndefined\<rparr> ''POST'' ''/api/entries''
                 (JObj [(''type'', JStr ''conversation''), (''title'', JStr ''Use JWT''),
                        (''content'', JStr ''Tokens expire hourly''),
                        (''tags'', JArr []),
                        (''source'', JStr ''vscode'')])) ''type'' = Some (JStr t)))"
  (is "(?A \<and> ?B) \<and> (?H \<and> ?C)")
proof -
  have a: ?A by (simp add: showQuickPick_def)
  have b: ?B
    by (rule mp [OF conjunct1 [OF conjunct2 [OF addEntry_type_enumerated]] a])
  have h: ?H
    by (simp add: addEntry_requests showQuickPick_def entry_types_def tags_of_def)
  have c: ?C
    by (rule bspec [OF conjunct2 [OF conjunct2 [OF addEntry_type_enumerated]] h])
  from a b h c show ?thesis by (intro conjI)
qed

subsection \<open>Title and content\<close>

text \<open>
  Claim C4: every request the add-entry command sends carries a non-empty \<open>title\<close>,
  the one typed, and a non-empty \<open>content\<close>: the content typed or, when that is
  missing or empty, the editor selection. With an empty or missing title the command sends
  nothing, and so it does when the content input and the selection are both empty.
\<close>

theorem addEntry_title_content_nonempty:
  "(\<forall>r \<in> set (requests (trace (addEntry cfg sel choice ti co tags answer))).
      \<exists>title content.
        body_field r ''title'' = Some (JStr title) \<and> title \<noteq> []
        \<and> body_field r ''content'' = Some (JStr content) \<and> content \<noteq> []
        \<and> ti = Some title
        \<and> (co = Some content \<or> ((co = None \<or> co = Some []) \<and> sel = Some content)))
   \<and> (\<not> truthy_str ti \<longrightarrow> requests (trace (addEntry cfg sel choice ti co tags answer)) = [])
   \<and> (\<not> truthy_str co \<and> \<not> truthy_str sel
        \<longrightarrow> requests (trace (addEntry cfg sel choice ti co tags answer)) = [])"
proof (intro conjI)
  show "\<forall>r \<in> set (requests (trace (addEntry cfg sel choice ti co tags answer))).
      \<exists>title content.
        body_field r ''title'' = Some (JStr title) \<and> title \<noteq> []
        \<and> body_field r ''content'' = Some (JStr content) \<and> content \<noteq> []
        \<and> ti = Some title
        \<and> (co = Some content \<or> ((co = None \<or> co = Some []) \<and> sel = Some content))"
  proof
    fix r
    assume "r \<in> set (requests (trace (addEntry cfg sel choice ti co tags answer)))"
    from addEntry_request_body [OF this] obtain type title where
      ti: "ti = Some title" and tne: "title \<noteq> []" and
      c: "truthy_str co \<or> truthy_str sel" and
      r: "r = fetch_call cfg ''POST'' ''/api/entries''
              (JObj [(''type'', JStr type),
                     (''title'', JStr title),
                     (''content'', JStr (or_else co (or_else sel []))),
                     (''tags'', JArr (map JStr (tags_of tags))),
                     (''source'', JStr ''vscode'')])"
      by auto
    have c1: "or_else co (or_else sel []) \<noteq> []"
      using c by (cases co; cases sel) auto
    have c2: "co = Some (or_else co (or_else sel []))
              \<or> ((co = None \<or> co = Some []) \<and> sel = Some (or_else co (or_else sel [])))"
      using c by (cases co; cases sel) auto
    have "body_field r ''title'' = Some (JStr title)"
      and "body_field r ''content'' = Some (JStr (or_else co (or_else sel [])))"
      by (simp_all add: r fetch_call_def)
    with tne ti c1 c2
    show "\<exists>title content.
        body_field r ''title'' = Some (JStr title) \<and> title \<noteq> []
        \<and> body_field r ''content'' = Some (JStr content) \<and> content \<noteq> []
        \<and> ti = Some title
        \<and> (co = Some content \<or> ((co = None \<or> co = Some []) \<and> sel = Some content))"
      by (intro exI conjI)
  qed
  show "\<not> truthy_str ti \<longrightarrow> requests (trace (addEntry cfg sel choice ti co tags answer)) = []"
    by (cases ti) (simp_all add: addEntry_requests split: option.splits)
  show "\<not> truthy_str co \<and> \<not> truthy_str sel
        \<longrightarrow> requests (trace (addEntry cfg sel choice ti co tags answer)) = []"
    by (simp add: addEntry_requests split: option.splits)
qed

theorem addEntry_title_content_nonempty_witness:
  "(fetch_call \<lparr>apiUrl = JUndefined, dataDir = JUndefined\<rparr> ''POST'' ''/api/entries''
         (JObj [(''type'', JStr ''code''), (''title'', JStr ''Retry helper''),
                (''content'', JStr ''fetchWithRetry(url, 3)''),
                (''tags'', JArr []),
                (''source'', JStr ''vscode'')])
       \<in> set (requests (trace (addEntry \<lparr>apiUrl = JUndefined, dataDir = JUndefined\<rparr>
                 (Some ''fetchWithRetry(url, 3)'') (Some 0) (Some ''Retry helper'') (Some [])
                 None (Responds JNull))))
    \<and> (\<exists>title content.
          body_field
            (fetch_call \<lparr>apiUrl = JUndefined, dataDir = JUndefined\<rparr> ''POST'' ''/api/entries''
               (JObj [(''type'', JStr ''code''), (''title'', JStr ''Retry helper''),
                      (''content'', JStr ''fetchWithRetry(url, 3)''),
                      (''tags'', JArr []),
                      (''source'', JStr ''vscode'')])) ''title'' = Some (JStr title)
          \<and> title \<noteq> []
          \<and> body_field
            (fetch_call \<lparr>apiUrl = JUndefined, dataDir = JUndefined\<rparr> ''POST'' ''/api/entries''
               (JObj [(''type'', JStr ''code''), (''title'', JStr ''Retry helper''),
                      (''content'', JStr ''fetchWithRetry(url, 3)''),
                      (''tags'', JArr []),
                      (''source'', JStr ''vscode'')])) ''content'' = Some (JStr content)
          \<and> content \<noteq> []
          \<and> Some ''Retry helper'' = Some title
          \<and> (Some [] = Some content
               \<or> (((Some [] :: string option) = None \<or> (Some [] :: string option) = Some [])
                   \<and> Some ''fetchWithRetry(url, 3)'' = Some content))))
   \<and> (\<not> truthy_str (Some [])
       \<and> requests (trace (addEntry \<lparr>apiUrl = JUndefined, dataDir = JUndefined\<rparr>
             (Some ''fetchWithRetry(url, 3)'') (Some 0) (Some []) (Some ''text'') None
             (Responds JNull))) = [])
   \<and> ((\<not> truthy_str (Some []) \<and> \<not> truthy_str None)
       \<and> requests (trace (addEntry \<lparr>apiUrl = JUndefined, dataDir = JUndefined\<rparr>
             None (Some 0) (Some ''Retry helper'') (Some []) None (Responds JNull))) = [])"
  (is "(?H \<and> ?C) \<and> (?A1 \<and> ?B1) \<and> (?A2 \<and> ?B2)")
proof -
  have h: ?H
    by (simp add: addEntry_requests showQuickPick_def entry_types_def tags_of_def)
  have c: ?C
    by (rule bspec [OF conjunct1 [OF addEntry_title_content_nonempty] h])
  have a1: ?A1 by simp
  have b1: ?B1
    by (rule mp [OF conjunct1 [OF conjunct2 [OF addEntry_title_content_nonempty]] a1])
  have a2: ?A2 by simp
  have b2: ?B2
    by (rule mp [OF conjunct2 [OF conjunct2 [OF addEntry_title_content_nonempty]] a2])
  show ?thesis
    by (rule conjI [OF conjI [OF h c] conjI [OF conjI [OF a1 b1] conjI [OF a2 b2]]])
qed

section \<open>Configuration defaults\<close>

text \<open>
  Claim C5: when the setting \<open>devkb.apiUrl\<close> is unset or otherwise falsy, the base URL
  is \<open>http://localhost:3001\<close>, and the one call of \<open>fetch\<close> that \<open>apiRequest\<close>
  makes goes to this base URL followed by the endpoint as it was given.
\<close>

theorem default_api_url:
  assumes "\<not> truthy (apiUrl cfg)"
  shows "getApiUrl cfg = JStr ''http://localhost:3001''
         \<and> map req_url (requests (trace (apiRequest cfg method endpoint data answer)))
             = [''http://localhost:3001'' @ endpoint]"
  using assms
  by (cases answer) (simp_all add: getApiUrl_def trace_apiRequest fetch_call_def)

theorem default_api_url_witness:
  "\<not> truthy (apiUrl \<lparr>apiUrl = JStr [], dataDir = JUndefined\<rparr>)
   \<and> (getApiUrl \<lparr>apiUrl = JStr [], dataDir = JUndefined\<rparr> = JStr ''http://localhost:3001''
      \<and> map req_url (requests (trace (apiRequest \<lparr>apiUrl = JStr [], dataDir = JUndefined\<rparr>
                                        ''GET'' ''/api/stats'' JUndefined (Fails ''offline''))))
          = [''http://localhost:3001'' @ ''/api/stats''])"
  (is "?H \<and> ?C")
proof -
  have h: ?H by simp
  from h default_api_url [OF h] show ?thesis by (rule conjI)
qed

text \<open>
  Claim C6: when the setting \<open>devkb.dataDir\<close> is unset or otherwise falsy, the data
  directory is \<open>.devkb\<close>, and the index command checks, and creates if missing, the
  directory \<open>.devkb\<close> joined under the first workspace folder.
\<close>

theorem default_data_dir:
  assumes "\<not> truthy (dataDir cfg)"
  shows "getDataDir cfg = JStr ''.devkb''
         \<and> trace (indexProject path_join cfg (Some (folder # others)) exists mkdir_ok files)
             = ExistsSync (path_join folder ''.devkb'')
               # (if exists then [] else [MkdirSync (path_join folder ''.devkb'')])
               @ (if exists \<or> mkdir_ok
                  then [FindFiles folder,
                        ShowInformationMessage (''Found '' @ show_nat files @ '' files to index''),
                        ShowInformationMessage ''Use the DevKB CLI to index: devkb index'']
                  else [])"
  using assms
  by (simp add: getDataDir_def indexProject_def cmd_simps)

theorem default_data_dir_witness:
  "\<not> truthy (dataDir \<lparr>apiUrl = JUndefined, dataDir = JUndefined\<rparr>)
   \<and> (getDataDir \<lparr>apiUrl = JUndefined, dataDir = JUndefined\<rparr> = JStr ''.devkb''
      \<and> trace (indexProject (\<lambda>a b. a @ ''/'' @ b) \<lparr>apiUrl = JUndefined, dataDir = JUndefined\<rparr>
                 (Some (''/home/me/project'' # [])) False True 42)
          = ExistsSync ((\<lambda>a b. a @ ''/'' @ b) ''/home/me/project'' ''.devkb'')
            # (if False then [] else [MkdirSync ((\<lambda>a b. a @ ''/'' @ b) ''/home/me/project'' ''.devkb'')])
            @ (if False \<or> True
               then [FindFiles ''/home/me/project'',
                     ShowInformationMessage (''Found '' @ show_nat 42 @ '' files to index''),
                     ShowInformationMessage ''Use the DevKB CLI to index: devkb index'']
               else []))"
  (is "?H \<and> ?C")
proof -
  have h: ?H by simp
  from h default_data_dir [OF h] show ?thesis by (rule conjI)
qed

section \<open>Requests of the ask, search and statistics commands\<close>

lemma requests_append: "requests (xs @ ys) = requests xs @ requests ys"
  by (induction xs rule: requests.induct) simp_all

lemma askQuestion_requests:
  "requests (trace (askQuestion cfg input answer)) =
     (case input of
        None \<Rightarrow> []
      | Some question \<Rightarrow>
          if question = [] then []
          else [fetch_call cfg ''POST'' ''/api/ask'' (JObj [(''question'', JStr question)])])"
proof (cases input)
  case None
  then show ?thesis by (simp add: askQuestion_def cmd_simps)
next
  case (Some question)
  show ?thesis
  proof (cases "question = []")
    case True
    then show ?thesis using Some by (simp add: askQuestion_def cmd_simps)
  next
    case False
    obtain r where r: "(case answer of Responds v \<Rightarrow> v | Fails err \<Rightarrow> JNull) = r" by simp
    obtain w where w: "and_member r ''success'' = Ok w"
      using and_member_Ok [of r "''success''"] ..
    show ?thesis using Some False r w
      by (cases answer)
         (simp_all add: askQuestion_def cmd_simps trace_apiRequest outcome_apiRequest
                        requests_append split: res.splits)
  qed
qed

lemma search_requests:
  "requests (trace (search positive cfg input answer choice)) =
     (case input of
        None \<Rightarrow> []
      | Some query \<Rightarrow>
          if query = [] then []
          else [fetch_call cfg ''GET'' (''/api/search?q='' @ encodeURIComponent query) JUndefined])"
proof (cases input)
  case None
  then show ?thesis by (simp add: search_def cmd_simps)
next
  case (Some query)
  show ?thesis
  proof (cases "query = []")
    case True
    then show ?thesis using Some by (simp add: search_def cmd_simps)
  next
    case False
    obtain r where r: "(case answer of Responds v \<Rightarrow> v | Fails err \<Rightarrow> JNull) = r" by simp
    obtain w where w: "and_member r ''success'' = Ok w"
      using and_member_Ok [of r "''success''"] ..
    show ?thesis using Some False r w
      by (cases answer)
         (simp_all add: search_def cmd_simps trace_apiRequest outcome_apiRequest
                        requests_append split: res.splits option.splits)
  qed
qed

lemma showStats_requests:
  "requests (trace (showStats cfg answer)) = [fetch_call cfg ''GET'' ''/api/stats'' JUndefined]"
proof -
  obtain r where r: "(case answer of Responds v \<Rightarrow> v | Fails err \<Rightarrow> JNull) = r" by simp
  obtain w where w: "and_member r ''success'' = Ok w"
    using and_member_Ok [of r "''success''"] ..
  show ?thesis using r w
    by (cases answer)
       (simp_all add: showStats_def cmd_simps trace_apiRequest outcome_apiRequest
                      requests_append split: res.splits)
qed

text \<open>
  Claim C7: the ask command sends a request only when the input box returns a string
  that is not empty; it then sends one POST to \<open>/api/ask\<close> whose body is the object
  with that string as its \<open>question\<close>. With no input or an empty one it sends nothing.
\<close>

theorem ask_sends_nonempty_question:
  "requests (trace (askQuestion cfg input answer)) =
     (case input of
        None \<Rightarrow> []
      | Some question \<Rightarrow>
          if question = [] then []
          else [\<lparr> req_method = ''POST'',
                  req_url = to_string (getApiUrl cfg) @ ''/api/ask'',
                  req_headers = [(''Content-Type'', ''application/json'')],
                  req_body = Some (JObj [(''question'', JStr question)]) \<rparr>])"
proof (cases input)
  case None
  then show ?thesis by (simp add: askQuestion_requests)
next
  case (Some question)
  have "truthy (JObj [(''question'', JStr question)])" by simp
  then have "fetch_call cfg ''POST'' ''/api/ask'' (JObj [(''question'', JStr question)])
               = \<lparr> req_method = ''POST'',
                   req_url = to_string (getApiUrl cfg) @ ''/api/ask'',
                   req_headers = [(''Content-Type'', ''application/json'')],
                   req_body = Some (JObj [(''question'', JStr question)]) \<rparr>"
    by (simp add: fetch_call_def)
  with Some show ?thesis by (simp add: askQuestion_requests)
qed

theorem ask_sends_nonempty_question_witness:
  "requests (trace (askQuestion \<lparr>apiUrl = JUndefined, dataDir = JUndefined\<rparr>
              (Some ''How do we handle authentication?'') (Responds JNull)))
     = [\<lparr> req_method = ''POST'',
          req_url = ''http://localhost:3001/api/ask'',
          req_headers = [(''Content-Type'', ''application/json'')],
          req_body = Some (JObj [(''question'', JStr ''How do we handle authentication?'')]) \<rparr>]
   \<and> requests (trace (askQuestion \<lparr>apiUrl = JUndefined, dataDir = JUndefined\<rparr>
              (Some []) (Responds JNull))) = []
   \<and> requests (trace (askQuestion \<lparr>apiUrl = JUndefined, dataDir = JUndefined\<rparr>
              None (Responds JNull))) = []"
  using ask_sends_nonempty_question
          [of "\<lparr>apiUrl = JUndefined, dataDir = JUndefined\<rparr>"
              "Some ''How do we handle authentication?''" "Responds JNull"]
        ask_sends_nonempty_question
          [of "\<lparr>apiUrl = JUndefined, dataDir = JUndefined\<rparr>" "Some []" "Responds JNull"]
        ask_sends_nonempty_question
          [of "\<lparr>apiUrl = JUndefined, dataDir = JUndefined\<rparr>" None "Responds JNull"]
  by (simp add: getApiUrl_def)

subsection \<open>The encoded query\<close>

lemma digit_char_unreserved: "unreserved (digit_char n)"
proof -
  have "digit_char n \<in> set ''0123456789ABCDEF''"
    unfolding digit_char.simps by (rule nth_mem) simp
  then show ?thesis unfolding unreserved_def by auto
qed

lemma encode_unit_safe: "c \<in> set (encode_unit x) \<Longrightarrow> unreserved c \<or> c = CHR ''%''"
  by (auto simp: encode_unit_def percent_def Let_def digit_char_unreserved
           simp del: digit_char.simps split: if_splits)

lemma encodeURIComponent_safe:
  "c \<in> set (encodeURIComponent s) \<Longrightarrow> unreserved c \<or> c = CHR ''%''"
  by (auto simp: encodeURIComponent_def dest: encode_unit_safe)

lemma encode_unit_nonempty: "encode_unit x \<noteq> []"
  by (simp add: encode_unit_def percent_def Let_def)

lemma encodeURIComponent_nonempty: "s \<noteq> [] \<Longrightarrow> encodeURIComponent s \<noteq> []"
  by (cases s) (simp_all add: encodeURIComponent_def encode_unit_nonempty)

lemma hex_digits: "\<forall>a \<in> set [0 ..< 16]. hex_value (digit_char a) = Some a"
  by code_simp

lemma hex_value_digit: "a < 16 \<Longrightarrow> hex_value (digit_char a) = Some a"
  using hex_digits by simp

lemma hex_byte_percent:
  assumes "b < 256"
  shows "hex_byte (digit_char (b div 16)) (digit_char (b mod 16)) = Some b"
proof -
  have "b div 16 < 16" using assms by simp
  moreover have "b mod 16 < 16" by simp
  ultimately show ?thesis
    unfolding hex_byte_def by (simp add: hex_value_digit del: digit_char.simps)
qed

lemma of_char_less_256: "(of_char c :: nat) < 256"
proof -
  have "(of_char (char_of (of_char c :: nat)) :: nat) = of_char c mod 256"
    by (rule of_char_of)
  then have "(of_char c :: nat) = of_char c mod 256" by simp
  then show ?thesis by (metis mod_less_divisor zero_less_numeral)
qed

lemma percent_not_unreserved: "\<not> unreserved CHR ''%''"
  by (simp add: unreserved_def)

lemma decode_encode_unit:
  "decodeURIComponent (encode_unit c @ s) = map_option ((#) c) (decodeURIComponent s)"
proof -
  define n where "n = (of_char c :: nat)"
  have n: "n < 256" unfolding n_def by (rule of_char_less_256)
  have c: "char_of n = c" unfolding n_def by simp
  show ?thesis
  proof (cases "unreserved c")
    case True
    then have "c \<noteq> CHR ''%''" using percent_not_unreserved by auto
    then show ?thesis using True by (simp add: encode_unit_def)
  next
    case False
    show ?thesis
    proof (cases "n < 128")
      case True
      then show ?thesis using False n c
        by (simp add: encode_unit_def percent_def n_def [symmetric] hex_byte_percent
                 del: digit_char.simps)
    next
      case big: False
      define b1 where "b1 = 192 + n div 64"
      define b2 where "b2 = 128 + n mod 64"
      have b1: "b1 = 194 \<or> b1 = 195" "b1 < 256" unfolding b1_def using n big by auto
      have b2: "128 \<le> b2" "b2 < 192" "b2 < 256" unfolding b2_def by auto
      have v: "(b1 - 192) * 64 + (b2 - 128) = n" unfolding b1_def b2_def by simp
      have "encode_unit c = percent b1 @ percent b2"
        using False big by (simp add: encode_unit_def n_def [symmetric] b1_def b2_def)
      then show ?thesis using b1 b2 v c
        by (auto simp: percent_def hex_byte_percent simp del: digit_char.simps)
    qed
  qed
qed

lemma decode_encode: "decodeURIComponent (encodeURIComponent q) = Some q"
  by (induction q) (simp_all add: encodeURIComponent_def decode_encode_unit)

lemma encode_inj: "encodeURIComponent q = encodeURIComponent q' \<Longrightarrow> q = q'"
  by (metis decode_encode option.inject)

lemma encode_unreserved: "\<forall>c \<in> set q. unreserved c \<Longrightarrow> encodeURIComponent q = q"
  by (induction q) (simp_all add: encodeURIComponent_def encode_unit_def)

text \<open>
  Claim C8: the search command sends a request only when the input box returns a string
  that is not empty; it then sends one GET to \<open>/api/search?q=\<close> followed by the
  string encoded by \<open>encodeURIComponent\<close>. The encoding of a string that is not empty
  is not empty, and it consists of unreserved characters and percent signs. The
  parameter stands for the query and for no other string: decoding it gives the query
  back, two queries with the same encoding are equal, and a query of unreserved
  characters is sent as it is.
\<close>

theorem search_sends_encoded_query:
  "requests (trace (search positive cfg input answer choice)) =
     (case input of
        None \<Rightarrow> []
      | Some query \<Rightarrow>
          if query = [] then []
          else [\<lparr> req_method = ''GET'',
                  req_url = to_string (getApiUrl cfg) @ ''/api/search?q='' @ encodeURIComponent query,
                  req_headers = [(''Content-Type'', ''application/json'')],
                  req_body = None \<rparr>])
   \<and> (q \<noteq> [] \<longrightarrow> encodeURIComponent q \<noteq> [])
   \<and> (\<forall>c \<in> set (encodeURIComponent q). unreserved c \<or> c = CHR ''%'')
   \<and> decodeURIComponent (encodeURIComponent q) = Some q
   \<and> (encodeURIComponent q = encodeURIComponent q' \<longrightarrow> q = q')
   \<and> (list_all unreserved q \<longrightarrow> encodeURIComponent q = q)"
proof (intro conjI)
  show "requests (trace (search positive cfg input answer choice)) =
     (case input of
        None \<Rightarrow> []
      | Some query \<Rightarrow>
          if query = [] then []
          else [\<lparr> req_method = ''GET'',
                  req_url = to_string (getApiUrl cfg) @ ''/api/search?q='' @ encodeURIComponent query,
                  req_headers = [(''Content-Type'', ''application/json'')],
                  req_body = None \<rparr>])"
    by (simp add: search_requests fetch_call_def split: option.splits)
  show "q \<noteq> [] \<longrightarrow> encodeURIComponent q \<noteq> []"
    by (simp add: encodeURIComponent_nonempty)
  show "\<forall>c \<in> set (encodeURIComponent q). unreserved c \<or> c = CHR ''%''"
    using encodeURIComponent_safe by simp
  show "decodeURIComponent (encodeURIComponent q) = Some q"
    by (rule decode_encode)
  show "encodeURIComponent q = encodeURIComponent q' \<longrightarrow> q = q'"
    using encode_inj by (rule impI)
  show "list_all unreserved q \<longrightarrow> encodeURIComponent q = q"
    by (simp add: encode_unreserved list_all_iff)
qed

lemma encode_example: "encodeURIComponent ''jwt & auth?'' = ''jwt%20%26%20auth%3F''"
  by code_simp

theorem search_sends_encoded_query_witness:
  "requests (trace (search (\<lambda>s. False) \<lparr>apiUrl = JUndefined, dataDir = JUndefined\<rparr>
              (Some ''jwt & auth?'') (Responds JNull) None))
     = [\<lparr> req_method = ''GET'',
          req_url = ''http://localhost:3001/api/search?q=jwt%20%26%20auth%3F'',
          req_headers = [(''Content-Type'', ''application/json'')],
          req_body = None \<rparr>]
   \<and> requests (trace (search (\<lambda>s. False) \<lparr>apiUrl = JUndefined, dataDir = JUndefined\<rparr>
              (Some []) (Responds JNull) None)) = []
   \<and> (''jwt & auth?'' \<noteq> [] \<and> encodeURIComponent ''jwt & auth?'' \<noteq> [])
   \<and> (CHR ''%'' \<in> set (encodeURIComponent ''jwt & auth?'')
       \<and> (unreserved CHR ''%'' \<or> CHR ''%'' = CHR ''%''))
   \<and> decodeURIComponent ''jwt%20%26%20auth%3F'' = Some ''jwt & auth?''
   \<and> (encodeURIComponent ''jwt & auth?'' = encodeURIComponent ''jwt & auth?''
       \<and> ''jwt & auth?'' = ''jwt & auth?'')
   \<and> (list_all unreserved ''jwt'' \<and> encodeURIComponent ''jwt'' = ''jwt'')"
  (is "?A \<and> ?B \<and> (?N \<and> ?E) \<and> (?H \<and> ?C) \<and> ?D \<and> (?I \<and> ?J) \<and> (?U \<and> ?V)")
proof -
  note t1 = search_sends_encoded_query
              [of "\<lambda>s. False" "\<lparr>apiUrl = JUndefined, dataDir = JUndefined\<rparr>"
                  "Some ''jwt & auth?''" "Responds JNull" None "''jwt & auth?''"
                  "''jwt & auth?''"]
  note t2 = search_sends_encoded_query
              [of "\<lambda>s. False" "\<lparr>apiUrl = JUndefined, dataDir = JUndefined\<rparr>"
                  "Some []" "Responds JNull" None "''jwt''" "''jwt''"]
  note r1 = conjunct2 [OF conjunct2 [OF conjunct2 [OF t1]]]
  note r2 = conjunct2 [OF conjunct2 [OF conjunct2 [OF t2]]]
  have a: ?A using conjunct1 [OF t1] by (simp add: getApiUrl_def encode_example)
  have b: ?B using conjunct1 [OF t2] by simp
  have n: ?N by simp
  have e: ?E by (rule mp [OF conjunct1 [OF conjunct2 [OF t1]] n])
  have h: ?H by (simp add: encode_example)
  have c: ?C by (rule bspec [OF conjunct1 [OF conjunct2 [OF conjunct2 [OF t1]]] h])
  have d: ?D using conjunct1 [OF r1] by (simp only: encode_example)
  have i: ?I by (rule refl)
  have j: ?J by (rule mp [OF conjunct1 [OF conjunct2 [OF r1]] i])
  have u: ?U by (simp add: unreserved_def)
  have v: ?V by (rule mp [OF conjunct2 [OF conjunct2 [OF r2]] u])
  show ?thesis
    by (rule conjI [OF a conjI [OF b conjI [OF conjI [OF n e] conjI [OF conjI [OF h c]
              conjI [OF d conjI [OF conjI [OF i j] conjI [OF u v]]]]]]])
qed

section \<open>When the request fails\<close>

lemma and_member_JNull: "and_member JNull k = Ok JNull"
  by (simp add: and_member_def)

lemma askQuestion_Fails:
  assumes "question \<noteq> []"
  shows "trace (askQuestion cfg (Some question) (Fails err)) =
           [ShowInputBox ''Ask a question about your codebase''
                         ''e.g., How do we handle authentication?'',
            Fetch (fetch_call cfg ''POST'' ''/api/ask'' (JObj [(''question'', JStr question)])),
            ShowErrorMessage (''DevKB API error: '' @ err),
            ShowWarningMessage ''Could not get an answer. Make sure the API server is running.'']"
    and "outcome (askQuestion cfg (Some question) (Fails err)) = Ok ()"
  using assms
  by (simp_all add: askQuestion_def cmd_simps trace_apiRequest outcome_apiRequest and_member_JNull)

lemma search_Fails:
  assumes "query \<noteq> []"
  shows "trace (search positive cfg (Some query) (Fails err) choice) =
           [ShowInputBox ''Search the knowledge base'' ''Enter search terms...'',
            Fetch (fetch_call cfg ''GET'' (''/api/search?q='' @ encodeURIComponent query) JUndefined),
            ShowErrorMessage (''DevKB API error: '' @ err),
            ShowInformationMessage ''No results found.'']"
    and "outcome (search positive cfg (Some query) (Fails err) choice) = Ok ()"
  using assms
  by (simp_all add: search_def cmd_simps trace_apiRequest outcome_apiRequest and_member_JNull)

lemma showStats_Fails:
  shows "trace (showStats cfg (Fails err)) =
           [Fetch (fetch_call cfg ''GET'' ''/api/stats'' JUndefined),
            ShowErrorMessage (''DevKB API error: '' @ err),
            ShowWarningMessage ''Could not load statistics'']"
    and "outcome (showStats cfg (Fails err)) = Ok ()"
  by (simp_all add: showStats_def cmd_simps trace_apiRequest outcome_apiRequest and_member_JNull)

lemma addEntry_Fails:
  assumes "showQuickPick entry_types choice = Some type" and "title \<noteq> []"
    and "truthy_str co \<or> truthy_str sel"
  shows "trace (addEntry cfg sel choice (Some title) co tags (Fails err)) =
           [ShowQuickPick entry_types ''Select entry type'',
            ShowInputBox ''Enter entry title'' ''e.g., Authentication Flow'',
            ShowInputBox ''Enter entry content'' (or_else sel ''Enter the knowledge content...''),
            ShowInputBox ''Enter tags (comma-separated)'' ''e.g., auth, security, jwt'',
            Fetch (fetch_call cfg ''POST'' ''/api/entries''
                     (JObj [(''type'', JStr type),
                            (''title'', JStr title),
                            (''content'', JStr (or_else co (or_else sel []))),
                            (''tags'', JArr (map JStr (tags_of tags))),
                            (''source'', JStr ''vscode'')])),
            ShowErrorMessage (''DevKB API error: '' @ err),
            ShowErrorMessage ''Failed to create entry'']"
    and "outcome (addEntry cfg sel choice (Some title) co tags (Fails err)) = Ok ()"
proof -
  have ne: "type \<noteq> []" by (rule entry_type_nonempty [OF showQuickPick_mem [OF assms(1)]])
  show "trace (addEntry cfg sel choice (Some title) co tags (Fails err)) =
           [ShowQuickPick entry_types ''Select entry type'',
            ShowInputBox ''Enter entry title'' ''e.g., Authentication Flow'',
            ShowInputBox ''Enter entry content'' (or_else sel ''Enter the knowledge content...''),
            ShowInputBox ''Enter tags (comma-separated)'' ''e.g., auth, security, jwt'',
            Fetch (fetch_call cfg ''POST'' ''/api/entries''
                     (JObj [(''type'', JStr type),
                            (''title'', JStr title),
                            (''content'', JStr (or_else co (or_else sel []))),
                            (''tags'', JArr (map JStr (tags_of tags))),
                            (''source'', JStr ''vscode'')])),
            ShowErrorMessage (''DevKB API error: '' @ err),
            ShowErrorMessage ''Failed to create entry'']"
    using assms ne
    by (simp add: addEntry_def cmd_simps trace_apiRequest outcome_apiRequest and_member_JNull Let_def)
  show "outcome (addEntry cfg sel choice (Some title) co tags (Fails err)) = Ok ()"
    using assms ne
    by (simp add: addEntry_def cmd_simps trace_apiRequest outcome_apiRequest and_member_JNull Let_def)
qed

text \<open>
  Claim C9, as the code has it: when the HTTP request throws, \<open>apiRequest\<close> shows the
  error notification \<open>DevKB API error: ...\<close> and returns \<open>null\<close>, and each command
  that made the request then takes its failure branch and ends normally, without opening
  a document: the ask command and the statistics command show a warning, the search
  command shows the information message \<open>No results found.\<close>, and the add-entry
  command shows the error message \<open>Failed to create entry\<close>.
\<close>

theorem request_failure_branches:
  "outcome (apiRequest cfg method endpoint data (Fails err)) = Ok JNull
   \<and> trace (apiRequest cfg method endpoint data (Fails err))
       = [Fetch (fetch_call cfg method endpoint data),
          ShowErrorMessage (''DevKB API error: '' @ err)]
   \<and> (question \<noteq> [] \<longrightarrow>
        trace (askQuestion cfg (Some question) (Fails err))
          = [ShowInputBox ''Ask a question about your codebase''
                          ''e.g., How do we handle authentication?'',
             Fetch (fetch_call cfg ''POST'' ''/api/ask'' (JObj [(''question'', JStr question)])),
             ShowErrorMessage (''DevKB API error: '' @ err),
             ShowWarningMessage
               ''Could not get an answer. Make sure the API server is running.'']
        \<and> outcome (askQuestion cfg (Some question) (Fails err)) = Ok ())
   \<and> (query \<noteq> [] \<longrightarrow>
        trace (search positive cfg (Some query) (Fails err) pick)
          = [ShowInputBox ''Search the knowledge base'' ''Enter search terms...'',
             Fetch (fetch_call cfg ''GET'' (''/api/search?q='' @ encodeURIComponent query)
                      JUndefined),
             ShowErrorMessage (''DevKB API error: '' @ err),
             ShowInformationMessage ''No results found.'']
        \<and> outcome (search positive cfg (Some query) (Fails err) pick) = Ok ())
   \<and> (showQuickPick entry_types choice = Some type \<and> title \<noteq> []
        \<and> (truthy_str co \<or> truthy_str sel) \<longrightarrow>
        trace (addEntry cfg sel choice (Some title) co tags (Fails err))
          = [ShowQuickPick entry_types ''Select entry type'',
             ShowInputBox ''Enter entry title'' ''e.g., Authentication Flow'',
             ShowInputBox ''Enter entry content''
                          (or_else sel ''Enter the knowledge content...''),
             ShowInputBox ''Enter tags (comma-separated)'' ''e.g., auth, security, jwt'',
             Fetch (fetch_call cfg ''POST'' ''/api/entries''
                      (JObj [(''type'', JStr type),
                             (''title'', JStr title),
                             (''content'', JStr (or_else co (or_else sel []))),
                             (''tags'', JArr (map JStr (tags_of tags))),
                             (''source'', JStr ''vscode'')])),
             ShowErrorMessage (''DevKB API error: '' @ err),
             ShowErrorMessage ''Failed to create entry'']
        \<and> outcome (addEntry cfg sel choice (Some title) co tags (Fails err)) = Ok ())
   \<and> trace (showStats cfg (Fails err))
       = [Fetch (fetch_call cfg ''GET'' ''/api/stats'' JUndefined),
          ShowErrorMessage (''DevKB API error: '' @ err),
          ShowWarningMessage ''Could not load statistics'']
   \<and> outcome (showStats cfg (Fails err)) = Ok ()"
proof (intro conjI impI)
  show "outcome (apiRequest cfg method endpoint data (Fails err)) = Ok JNull"
    by (simp add: outcome_apiRequest)
  show "trace (apiRequest cfg method endpoint data (Fails err))
       = [Fetch (fetch_call cfg method endpoint data),
          ShowErrorMessage (''DevKB API error: '' @ err)]"
    by (simp add: trace_apiRequest)
qed (simp_all add: askQuestion_Fails search_Fails addEntry_Fails showStats_Fails)

theorem request_failure_branches_witness:
  "(''How do we deploy?'' \<noteq> [] \<and>
      trace (askQuestion \<lparr>apiUrl = JUndefined, dataDir = JUndefined\<rparr>
               (Some ''How do we deploy?'') (Fails ''TypeError: fetch failed''))
        = [ShowInputBox ''Ask a question about your codebase''
                        ''e.g., How do we handle authentication?'',
           Fetch (fetch_call \<lparr>apiUrl = JUndefined, dataDir = JUndefined\<rparr> ''POST'' ''/api/ask''
                    (JObj [(''question'', JStr ''How do we deploy?'')])),
           ShowErrorMessage (''DevKB API error: '' @ ''TypeError: fetch failed''),
           ShowWarningMessage
             ''Could not get an answer. Make sure the API server is running.''])
   \<and> (''deploy'' \<noteq> [] \<and>
      trace (search (\<lambda>s. False) \<lparr>apiUrl = JUndefined, dataDir = JUndefined\<rparr>
               (Some ''deploy'') (Fails ''TypeError: fetch failed'') None)
        = [ShowInputBox ''Search the knowledge base'' ''Enter search terms...'',
           Fetch (fetch_call \<lparr>apiUrl = JUndefined, dataDir = JUndefined\<rparr> ''GET''
                    (''/api/search?q='' @ encodeURIComponent ''deploy'') JUndefined),
           ShowErrorMessage (''DevKB API error: '' @ ''TypeError: fetch failed''),
           ShowInformationMessage ''No results found.''])
   \<and> ((showQuickPick entry_types (Some 5) = Some ''process'' \<and> ''Release steps'' \<noteq> []
        \<and> (truthy_str (Some ''Tag, build, publish'') \<or> truthy_str None)) \<and>
      outcome (addEntry \<lparr>apiUrl = JUndefined, dataDir = JUndefined\<rparr> None (Some 5)
                 (Some ''Release steps'') (Some ''Tag, build, publish'') None
                 (Fails ''TypeError: fetch failed'')) = Ok ())"
  (is "(?H1 \<and> ?C1) \<and> (?H2 \<and> ?C2) \<and> (?H3 \<and> ?C3)")
proof -
  note t = request_failure_branches
             [of "\<lparr>apiUrl = JUndefined, dataDir = JUndefined\<rparr>" "''GET''" "''/api/stats''"
                 JUndefined "''TypeError: fetch failed''" "''How do we deploy?''" "''deploy''"
                 "\<lambda>s. False" None "Some 5" "''process''" "''Release steps''"
                 "Some ''Tag, build, publish''" None None]
  have h1: ?H1 by simp
  have c1: ?C1
    using mp [OF conjunct1 [OF conjunct2 [OF conjunct2 [OF t]]] h1] by (rule conjunct1)
  have h2: ?H2 by simp
  have c2: ?C2
    using mp [OF conjunct1 [OF conjunct2 [OF conjunct2 [OF conjunct2 [OF t]]]] h2]
    by (rule conjunct1)
  have h3: ?H3 by (simp add: showQuickPick_def entry_types_def)
  have c3: ?C3
    using mp [OF conjunct1 [OF conjunct2 [OF conjunct2 [OF conjunct2 [OF conjunct2 [OF t]]]]] h3]
    by (rule conjunct2)
  show ?thesis
    by (rule conjI [OF conjI [OF h1 c1] conjI [OF conjI [OF h2 c2] conjI [OF h3 c3]]])
qed

text \<open>
  After a failed request the add-entry command shows two error messages and neither a
  warning nor an information message.
\<close>

theorem addEntry_failure_message_counterexample:
  "trace (addEntry \<lparr>apiUrl = JUndefined, dataDir = JUndefined\<rparr> None (Some 5)
            (Some ''Release steps'') (Some ''Tag, build, publish'') None
            (Fails ''TypeError: fetch failed''))
     = [ShowQuickPick [''code'', ''documentation'', ''decision'', ''conversation'',
                       ''architecture'', ''process''] ''Select entry type'',
        ShowInputBox ''Enter entry title'' ''e.g., Authentication Flow'',
        ShowInputBox ''Enter entry content'' ''Enter the knowledge content...'',
        ShowInputBox ''Enter tags (comma-separated)'' ''e.g., auth, security, jwt'',
        Fetch \<lparr> req_method = ''POST'',
                req_url = ''http://localhost:3001/api/entries'',
                req_headers = [(''Content-Type'', ''application/json'')],
                req_body = Some (JObj [(''type'', JStr ''process''),
                                       (''title'', JStr ''Release steps''),
                                       (''content'', JStr ''Tag, build, publish''),
                                       (''tags'', JArr []),
                                       (''source'', JStr ''vscode'')]) \<rparr>,
        ShowErrorMessage ''DevKB API error: TypeError: fetch failed'',
        ShowErrorMessage ''Failed to create entry'']
   \<and> filter warning_or_information
        (trace (addEntry \<lparr>apiUrl = JUndefined, dataDir = JUndefined\<rparr> None (Some 5)
                  (Some ''Release steps'') (Some ''Tag, build, publish'') None
                  (Fails ''TypeError: fetch failed''))) = []"
proof -
  have p: "showQuickPick entry_types (Some 5) = Some ''process''"
    by (simp add: showQuickPick_def entry_types_def)
  have t: "truthy_str (Some ''Tag, build, publish'') \<or> truthy_str None" by simp
  have n: "''Release steps'' \<noteq> []" by simp
  show ?thesis
    unfolding addEntry_Fails(1) [OF p n t]
    by (simp add: fetch_call_def getApiUrl_def tags_of_def entry_types_def)
qed

section \<open>Results of a search\<close>

lemma member_truthy: "truthy v \<Longrightarrow> \<exists>w. member v k = Ok w"
  by (cases v) simp_all

lemma and_member_truthy:
  "and_member v k = Ok w \<Longrightarrow> truthy w \<Longrightarrow> truthy v \<and> member v k = Ok w"
  by (auto simp: and_member_def split: if_splits)

lemma map_res_Ok: "map_res f xs = Ok ys \<Longrightarrow> list_all2 (\<lambda>x y. f x = Ok y) xs ys"
  by (induction xs arbitrary: ys) (auto split: res.splits)

lemma substring_100_Ok: "substring_100 v = Ok p \<Longrightarrow> \<exists>c. v = JStr c \<and> p = take 100 c"
  by (cases v) auto

lemma to_item_Ok:
  assumes "to_item e = Ok it"
  shows "entry it = e \<and> member e ''title'' = Ok (label it)
         \<and> member e ''type'' = Ok (description it)
         \<and> (\<exists>c. member e ''content'' = Ok (JStr c) \<and> detail it = take 100 c @ ''...'')"
  using assms unfolding to_item_def
  by (auto split: res.splits dest!: substring_100_Ok)

lemma array_map_Ok: "array_map f v = Ok ys \<Longrightarrow> \<exists>xs. v = JArr xs \<and> map_res f xs = Ok ys"
  by (cases v) auto

lemma search_not_found:
  assumes "query \<noteq> []" and "and_member result ''success'' = Ok s" and "\<not> truthy s"
  shows "trace (search positive cfg (Some query) (Responds result) choice) =
           [ShowInputBox ''Search the knowledge base'' ''Enter search terms...'',
            Fetch (fetch_call cfg ''GET'' (''/api/search?q='' @ encodeURIComponent query) JUndefined),
            ShowInformationMessage ''No results found.'']"
  using assms
  by (simp add: search_def cmd_simps trace_apiRequest outcome_apiRequest)

lemma search_empty:
  assumes "query \<noteq> []" and "and_member result ''success'' = Ok s" and "truthy s"
    and "member result ''data'' = Ok (JArr [])"
  shows "trace (search positive cfg (Some query) (Responds result) choice) =
           [ShowInputBox ''Search the knowledge base'' ''Enter search terms...'',
            Fetch (fetch_call cfg ''GET'' (''/api/search?q='' @ encodeURIComponent query) JUndefined),
            ShowInformationMessage ''No results found.'']"
  using assms
  by (simp add: search_def cmd_simps trace_apiRequest outcome_apiRequest)

lemma search_quick_pick:
  assumes "ShowQuickPickItems items \<in> set (trace (search positive cfg input answer choice))"
  shows "\<exists>query result s xs.
           input = Some query \<and> query \<noteq> [] \<and> answer = Responds result
           \<and> truthy result \<and> member result ''success'' = Ok s \<and> truthy s
           \<and> member result ''data'' = Ok (JArr xs) \<and> xs \<noteq> []
           \<and> map_res to_item xs = Ok items"
proof (cases input)
  case None
  then show ?thesis using assms by (simp add: search_def cmd_simps)
next
  case (Some query)
  show ?thesis
  proof (cases "query = []")
    case True
    then show ?thesis using assms Some by (simp add: search_def cmd_simps)
  next
    case qne: False
    show ?thesis
    proof (cases answer)
      case (Fails err)
      then show ?thesis using assms Some qne
        by (simp add: search_def cmd_simps trace_apiRequest outcome_apiRequest and_member_JNull)
    next
      case (Responds result)
      obtain s where s: "and_member result ''success'' = Ok s"
        using and_member_Ok [of result "''success''"] ..
      show ?thesis
      proof (cases "truthy s")
        case False
        then show ?thesis using assms Some qne Responds search_not_found [OF qne s] by simp
      next
        case True
        from and_member_truthy [OF s True]
        have tr: "truthy result" and ms: "member result ''success'' = Ok s" by simp_all
        obtain data where data: "member result ''data'' = Ok data"
          using member_truthy [OF tr, of "''data''"] ..
        show ?thesis
        proof (cases "member data ''length''")
          case (Throw x)
          then show ?thesis using assms Some qne Responds s True data
            by (simp add: search_def cmd_simps trace_apiRequest outcome_apiRequest)
        next
          case (Ok len)
          show ?thesis
          proof (cases "gt_zero positive len")
            case False
            then show ?thesis using assms Some qne Responds s True data Ok
              by (simp add: search_def cmd_simps trace_apiRequest outcome_apiRequest)
          next
            case pos: True
            show ?thesis
            proof (cases "array_map to_item data")
              case (Throw x)
              then show ?thesis using assms Some qne Responds s True data Ok pos
                by (simp add: search_def cmd_simps trace_apiRequest outcome_apiRequest)
            next
              case its: (Ok items')
              from array_map_Ok [OF its] obtain xs where
                xs: "data = JArr xs" and mr: "map_res to_item xs = Ok items'" by auto
              have "items' = items"
                using assms Some qne Responds s True data Ok pos its
                by (simp add: search_def cmd_simps trace_apiRequest outcome_apiRequest
                         split: option.splits res.splits if_splits)
              moreover have "xs \<noteq> []" using Ok pos xs by auto
              ultimately show ?thesis
                using Some qne Responds tr ms True data xs mr by simp
            qed
          qed
        qed
      qed
    qed
  qed
qed

text \<open>
  Claim C10: in the search command a successful response whose \<open>data\<close> is the empty
  array, a response whose \<open>success\<close> is falsy and a failed request all end with the
  notification \<open>No results found.\<close>. The quick-pick is shown only when the response
  has a truthy \<open>success\<close> and a non-empty array as \<open>data\<close>, and then there is one
  item per entry, in order, whose label is the entry's title, whose description is its
  type and whose detail is the first 100 characters of its content followed by \<open>...\<close>.
\<close>

theorem search_result_branches:
  "(query \<noteq> [] \<and> truthy result \<and> member result ''success'' = Ok s \<and> truthy s
      \<and> member result ''data'' = Ok (JArr []) \<longrightarrow>
      trace (search positive cfg (Some query) (Responds result) choice)
        = [ShowInputBox ''Search the knowledge base'' ''Enter search terms...'',
           Fetch (fetch_call cfg ''GET'' (''/api/search?q='' @ encodeURIComponent query)
                    JUndefined),
           ShowInformationMessage ''No results found.''])
   \<and> (query \<noteq> [] \<and> and_member result ''success'' = Ok s \<and> \<not> truthy s \<longrightarrow>
      trace (search positive cfg (Some query) (Responds result) choice)
        = [ShowInputBox ''Search the knowledge base'' ''Enter search terms...'',
           Fetch (fetch_call cfg ''GET'' (''/api/search?q='' @ encodeURIComponent query)
                    JUndefined),
           ShowInformationMessage ''No results found.''])
   \<and> (query \<noteq> [] \<longrightarrow>
      trace (search positive cfg (Some query) (Fails err) choice)
        = [ShowInputBox ''Search the knowledge base'' ''Enter search terms...'',
           Fetch (fetch_call cfg ''GET'' (''/api/search?q='' @ encodeURIComponent query)
                    JUndefined),
           ShowErrorMessage (''DevKB API error: '' @ err),
           ShowInformationMessage ''No results found.''])
   \<and> (ShowQuickPickItems items \<in> set (trace (search positive cfg input answer choice)) \<longrightarrow>
      (\<exists>response ok entries.
         answer = Responds response
         \<and> truthy response \<and> member response ''success'' = Ok ok \<and> truthy ok
         \<and> member response ''data'' = Ok (JArr entries) \<and> entries \<noteq> []
         \<and> list_all2
             (\<lambda>e it. entry it = e
                      \<and> member e ''title'' = Ok (label it)
                      \<and> member e ''type'' = Ok (description it)
                      \<and> (\<exists>c. member e ''content'' = Ok (JStr c)
                               \<and> detail it = take 100 c @ ''...''))
             entries items))"
proof (intro conjI impI)
  assume a: "query \<noteq> [] \<and> truthy result \<and> member result ''success'' = Ok s \<and> truthy s
      \<and> member result ''data'' = Ok (JArr [])"
  then have "and_member result ''success'' = Ok s" by (simp add: and_member_def)
  with a show "trace (search positive cfg (Some query) (Responds result) choice)
        = [ShowInputBox ''Search the knowledge base'' ''Enter search terms...'',
           Fetch (fetch_call cfg ''GET'' (''/api/search?q='' @ encodeURIComponent query)
                    JUndefined),
           ShowInformationMessage ''No results found.'']"
    by (simp add: search_empty)
next
  assume "query \<noteq> [] \<and> and_member result ''success'' = Ok s \<and> \<not> truthy s"
  then show "trace (search positive cfg (Some query) (Responds result) choice)
        = [ShowInputBox ''Search the knowledge base'' ''Enter search terms...'',
           Fetch (fetch_call cfg ''GET'' (''/api/search?q='' @ encodeURIComponent query)
                    JUndefined),
           ShowInformationMessage ''No results found.'']"
    by (simp add: search_not_found)
next
  assume "query \<noteq> []"
  then show "trace (search positive cfg (Some query) (Fails err) choice)
        = [ShowInputBox ''Search the knowledge base'' ''Enter search terms...'',
           Fetch (fetch_call cfg ''GET'' (''/api/search?q='' @ encodeURIComponent query)
                    JUndefined),
           ShowErrorMessage (''DevKB API error: '' @ err),
           ShowInformationMessage ''No results found.'']"
    by (simp add: search_Fails)
next
  assume "ShowQuickPickItems items \<in> set (trace (search positive cfg input answer choice))"
  from search_quick_pick [OF this] obtain response ok entries where
    r: "answer = Responds response" "truthy response" "member response ''success'' = Ok ok"
       "truthy ok" "member response ''data'' = Ok (JArr entries)" "entries \<noteq> []" and
    m: "map_res to_item entries = Ok items"
    by auto
  have "list_all2 (\<lambda>e it. to_item e = Ok it) entries items"
    using m by (rule map_res_Ok)
  then have "list_all2
             (\<lambda>e it. entry it = e
                      \<and> member e ''title'' = Ok (label it)
                      \<and> member e ''type'' = Ok (description it)
                      \<and> (\<exists>c. member e ''content'' = Ok (JStr c)
                               \<and> detail it = take 100 c @ ''...''))
             entries items"
    by (rule list_all2_mono) (rule to_item_Ok)
  with r show "\<exists>response ok entries.
         answer = Responds response
         \<and> truthy response \<and> member response ''success'' = Ok ok \<and> truthy ok
         \<and> member response ''data'' = Ok (JArr entries) \<and> entries \<noteq> []
         \<and> list_all2
             (\<lambda>e it. entry it = e
                      \<and> member e ''title'' = Ok (label it)
                      \<and> member e ''type'' = Ok (description it)
                      \<and> (\<exists>c. member e ''content'' = Ok (JStr c)
                               \<and> detail it = take 100 c @ ''...''))
             entries items"
    by (intro exI conjI)
qed


theorem search_result_branches_witness:
  "((''jwt'' \<noteq> [] \<and> truthy (JObj [(''success'', JBool True), (''data'', JArr [])])
      \<and> member (JObj [(''success'', JBool True), (''data'', JArr [])]) ''success''
          = Ok (JBool True)
      \<and> truthy (JBool True)
      \<and> member (JObj [(''success'', JBool True), (''data'', JArr [])]) ''data'' = Ok (JArr []))
    \<and> trace (search (\<lambda>s. False) \<lparr>apiUrl = JUndefined, dataDir = JUndefined\<rparr> (Some ''jwt'')
               (Responds (JObj [(''success'', JBool True), (''data'', JArr [])])) None)
        = [ShowInputBox ''Search the knowledge base'' ''Enter search terms...'',
           Fetch (fetch_call \<lparr>apiUrl = JUndefined, dataDir = JUndefined\<rparr> ''GET''
                    (''/api/search?q='' @ encodeURIComponent ''jwt'') JUndefined),
           ShowInformationMessage ''No results found.''])
   \<and> ((''jwt'' \<noteq> []
       \<and> and_member (JObj [(''success'', JBool False), (''error'', JStr ''store unavailable'')])
            ''success'' = Ok (JBool False)
       \<and> \<not> truthy (JBool False))
    \<and> trace (search (\<lambda>s. False) \<lparr>apiUrl = JUndefined, dataDir = JUndefined\<rparr> (Some ''jwt'')
               (Responds (JObj [(''success'', JBool False),
                                (''error'', JStr ''store unavailable'')])) None)
        = [ShowInputBox ''Search the knowledge base'' ''Enter search terms...'',
           Fetch (fetch_call \<lparr>apiUrl = JUndefined, dataDir = JUndefined\<rparr> ''GET''
                    (''/api/search?q='' @ encodeURIComponent ''jwt'') JUndefined),
           ShowInformationMessage ''No results found.''])
   \<and> (''jwt'' \<noteq> []
    \<and> trace (search (\<lambda>s. False) \<lparr>apiUrl = JUndefined, dataDir = JUndefined\<rparr> (Some ''jwt'')
               (Fails ''TypeError: fetch failed'') None)
        = [ShowInputBox ''Search the knowledge base'' ''Enter search terms...'',
           Fetch (fetch_call \<lparr>apiUrl = JUndefined, dataDir = JUndefined\<rparr> ''GET''
                    (''/api/search?q='' @ encodeURIComponent ''jwt'') JUndefined),
           ShowErrorMessage (''DevKB API error: '' @ ''TypeError: fetch failed''),
           ShowInformationMessage ''No results found.''])
   \<and> (ShowQuickPickItems
         [\<lparr> label = JStr ''Authentication Flow'', description = JStr ''architecture'',
             detail = ''Tokens are issued by the gateway....'',
             entry = JObj [(''title'', JStr ''Authentication Flow''),
                           (''type'', JStr ''architecture''),
                           (''content'', JStr ''Tokens are issued by the gateway.''),
                           (''tags'', JArr [JStr ''auth'', JStr ''jwt''])] \<rparr>]
       \<in> set (trace (search (\<lambda>s. False) \<lparr>apiUrl = JUndefined, dataDir = JUndefined\<rparr>
                        (Some ''jwt'')
                        (Responds (JObj [(''success'', JBool True),
                                         (''data'', JArr
                                            [JObj [(''title'', JStr ''Authentication Flow''),
                                                   (''type'', JStr ''architecture''),
                                                   (''content'', JStr ''Tokens are issued by the gateway.''),
                                                   (''tags'', JArr [JStr ''auth'', JStr ''jwt''])]])]))
                        None))
    \<and> (\<exists>response ok entries.
         Responds (JObj [(''success'', JBool True),
                         (''data'', JArr
                            [JObj [(''title'', JStr ''Authentication Flow''),
                                   (''type'', JStr ''architecture''),
                                   (''content'', JStr ''Tokens are issued by the gateway.''),
                                   (''tags'', JArr [JStr ''auth'', JStr ''jwt''])]])])
           = Responds response
         \<and> truthy response \<and> member response ''success'' = Ok ok \<and> truthy ok
         \<and> member response ''data'' = Ok (JArr entries) \<and> entries \<noteq> []
         \<and> list_all2
             (\<lambda>e it. entry it = e
                      \<and> member e ''title'' = Ok (label it)
                      \<and> member e ''type'' = Ok (description it)
                      \<and> (\<exists>c. member e ''content'' = Ok (JStr c)
                               \<and> detail it = take 100 c @ ''...''))
             entries
             [\<lparr> label = JStr ''Authentication Flow'', description = JStr ''architecture'',
                 detail = ''Tokens are issued by the gateway....'',
                 entry = JObj [(''title'', JStr ''Authentication Flow''),
                               (''type'', JStr ''architecture''),
                               (''content'', JStr ''Tokens are issued by the gateway.''),
                               (''tags'', JArr [JStr ''auth'', JStr ''jwt''])] \<rparr>]))"
  (is "(?H1 \<and> ?C1) \<and> (?H2 \<and> ?C2) \<and> (?H3 \<and> ?C3) \<and> (?H4 \<and> ?C4)")
proof -
  have h1: ?H1 by simp
  have c1: ?C1 by (rule mp [OF conjunct1 [OF search_result_branches] h1])
  have h2: ?H2 by (simp add: and_member_def)
  have c2: ?C2 by (rule mp [OF conjunct1 [OF conjunct2 [OF search_result_branches]] h2])
  have h3: ?H3 by simp
  have c3: ?C3
    by (rule mp [OF conjunct1 [OF conjunct2 [OF conjunct2 [OF search_result_branches]]] h3])
  have h4: ?H4
    by (simp add: search_def cmd_simps trace_apiRequest outcome_apiRequest and_member_def
                  to_item_def showQuickPick_def)
  have c4: ?C4
    by (rule mp [OF conjunct2 [OF conjunct2 [OF conjunct2 [OF search_result_branches]]] h4])
  show ?thesis
    by (rule conjI [OF conjI [OF h1 c1]
              conjI [OF conjI [OF h2 c2] conjI [OF conjI [OF h3 c3] conjI [OF h4 c4]]]])
qed

end
